theory Spec2Isabelle
  imports Complex_Main "HOL-Library.Sublist"
begin

section \<open>The native world: pointers, library calls, wrappers\<close>

text \<open>
  The JNI layer of \<^verbatim>\<open>llama_android.cpp\<close> keeps no registry of its own: a handle is the
  address of a heap-allocated wrapper, cast to \<^verbatim>\<open>jlong\<close>, and \<^verbatim>\<open>0\<close> is the null pointer.
  Addresses are natural numbers here. The llama library is external; every call the code
  makes to it that creates, releases or initialises something is recorded, with its
  result, in a trace, and the library's answers (does a load succeed, does a context
  build succeed) are a parameter that may depend on everything that happened before.
\<close>

type_synonym ptr = nat

record llama_model_params =
  n_gpu_layers :: int

record llama_context_params =
  n_ctx :: int
  n_threads :: int
  n_threads_batch :: int
  embeddings :: bool

datatype lib_call =
    Backend_init
  | Numa_init
  | Load_model string llama_model_params ptr
  | New_context ptr llama_context_params ptr
  | Free_ctx ptr
  | Free_model ptr
  | Backend_free

text \<open>\<^verbatim>\<open>struct llama_context_wrapper\<close> and \<^verbatim>\<open>struct embedding_context_wrapper\<close>.\<close>

record llama_context_wrapper =
  w_model :: ptr
  w_ctx :: ptr
  using_gpu :: bool
  gpu_layers :: int

record embedding_context_wrapper =
  e_model :: ptr
  e_ctx :: ptr
  n_embd :: int

datatype heap_obj =
    Gen_wrapper llama_context_wrapper
  | Emb_wrapper embedding_context_wrapper

text \<open>
  The environment the code runs in: whether \<^verbatim>\<open>GGML_USE_VULKAN\<close> was defined at compile
  time, and the answers of the library, given the calls made so far.
\<close>

record native_env =
  vulkan_compiled :: bool
  load_succeeds :: "lib_call list \<Rightarrow> string \<Rightarrow> llama_model_params \<Rightarrow> bool"
  context_succeeds :: "lib_call list \<Rightarrow> ptr \<Rightarrow> llama_context_params \<Rightarrow> bool"
  model_n_embd :: "ptr \<Rightarrow> int"

text \<open>
  The process state: the trace of library calls (oldest first), the models and contexts
  the library currently holds, the wrappers allocated with \<^verbatim>\<open>new\<close>, and the
  function-local \<^verbatim>\<open>static bool backend_initialized\<close> of \<^verbatim>\<open>initEmbeddingModel\<close>.
\<close>

record world =
  calls :: "lib_call list"
  live_models :: "ptr list"
  live_ctxs :: "ptr list"
  heap :: "(ptr \<times> heap_obj) list"
  backend_initialized :: bool

definition world0 :: world where
  "world0 = \<lparr>calls = [], live_models = [], live_ctxs = [], heap = [],
             backend_initialized = False\<rparr>"

datatype error = Invalid_pointer

text \<open>An allocation returns an address that is not null and not in use.\<close>

definition fresh_ptr :: "ptr list \<Rightarrow> ptr" where
  "fresh_ptr ps = Suc (fold max ps 0)"

definition new_obj :: "heap_obj \<Rightarrow> world \<Rightarrow> ptr \<times> world" where
  "new_obj obj s =
     (let a = fresh_ptr (map fst (heap s)) in (a, s\<lparr>heap := (a, obj) # heap s\<rparr>))"

definition delete_obj :: "ptr \<Rightarrow> world \<Rightarrow> world" where
  "delete_obj a s = s\<lparr>heap := filter (\<lambda>(b, _). b \<noteq> a) (heap s)\<rparr>"

subsection \<open>The library calls the code makes\<close>

text \<open>
  The library is not part of the repository. Each of its functions below appends the call
  to the trace and keeps account of the model or context it creates or releases; whether
  a load or a context build succeeds is asked of the environment.
\<close>

definition llama_backend_init :: "world \<Rightarrow> world" where
  "llama_backend_init s = s\<lparr>calls := calls s @ [Backend_init]\<rparr>"

definition llama_numa_init :: "world \<Rightarrow> world" where
  "llama_numa_init s = s\<lparr>calls := calls s @ [Numa_init]\<rparr>"

definition llama_backend_free :: "world \<Rightarrow> world" where
  "llama_backend_free s = s\<lparr>calls := calls s @ [Backend_free]\<rparr>"

definition llama_load_model_from_file ::
  "native_env \<Rightarrow> string \<Rightarrow> llama_model_params \<Rightarrow> world \<Rightarrow> ptr \<times> world" where
  "llama_load_model_from_file E path mp s =
     (if load_succeeds E (calls s) path mp
      then (let m = fresh_ptr (live_models s)
            in (m, s\<lparr>calls := calls s @ [Load_model path mp m],
                     live_models := m # live_models s\<rparr>))
      else (0, s\<lparr>calls := calls s @ [Load_model path mp 0]\<rparr>))"

definition llama_new_context_with_model ::
  "native_env \<Rightarrow> ptr \<Rightarrow> llama_context_params \<Rightarrow> world \<Rightarrow> ptr \<times> world" where
  "llama_new_context_with_model E m cp s =
     (if context_succeeds E (calls s) m cp
      then (let c = fresh_ptr (live_ctxs s)
            in (c, s\<lparr>calls := calls s @ [New_context m cp c],
                     live_ctxs := c # live_ctxs s\<rparr>))
      else (0, s\<lparr>calls := calls s @ [New_context m cp 0]\<rparr>))"

definition llama_free :: "ptr \<Rightarrow> world \<Rightarrow> world" where
  "llama_free c s = s\<lparr>calls := calls s @ [Free_ctx c],
                      live_ctxs := removeAll c (live_ctxs s)\<rparr>"

definition llama_free_model :: "ptr \<Rightarrow> world \<Rightarrow> world" where
  "llama_free_model m s = s\<lparr>calls := calls s @ [Free_model m],
                            live_models := removeAll m (live_models s)\<rparr>"

section \<open>Session creation\<close>

text \<open>\<^verbatim>\<open>detect_vulkan_available\<close>: the answer is fixed at compile time.\<close>

definition detect_vulkan_available :: "native_env \<Rightarrow> bool" where
  "detect_vulkan_available E = vulkan_compiled E"

text \<open>
  \<^verbatim>\<open>initModel\<close> (CPU only). Each creation function returns the handle (\<open>0\<close> on
  failure) and the new process state.
\<close>

definition initModel :: "native_env \<Rightarrow> string \<Rightarrow> int \<Rightarrow> int \<Rightarrow> world \<Rightarrow> ptr \<times> world" where
  "initModel E path contextSize threads s0 =
     (let s1 = llama_numa_init (llama_backend_init s0);
          model_params = \<lparr>n_gpu_layers = 0\<rparr>;
          (model, s2) = llama_load_model_from_file E path model_params s1
      in if model = 0 then (0, s2)
         else
           (let ctx_params = \<lparr>n_ctx = contextSize, n_threads = threads,
                               n_threads_batch = threads, embeddings = False\<rparr>;
                (ctx, s3) = llama_new_context_with_model E model ctx_params s2
            in if ctx = 0 then (0, llama_free_model model s3)
               else new_obj (Gen_wrapper \<lparr>w_model = model, w_ctx = ctx,
                                          using_gpu = False, gpu_layers = 0\<rparr>) s3))"

text \<open>
  The negotiation block of \<^verbatim>\<open>initModelWithGpu\<close> (the locals \<^verbatim>\<open>gpu_available\<close>,
  \<^verbatim>\<open>actual_gpu_layers\<close> and \<^verbatim>\<open>model_params.n_gpu_layers\<close> after the \<^verbatim>\<open>if (useGpu)\<close>).
\<close>

definition gpu_negotiate :: "native_env \<Rightarrow> bool \<Rightarrow> int \<Rightarrow> bool \<times> int \<times> llama_model_params" where
  "gpu_negotiate E useGpu gpuLayers =
     (if useGpu then
        (let gpu_available = detect_vulkan_available E
         in if gpu_available then
              (let actual_gpu_layers = (if gpuLayers < 0 then 99 else gpuLayers)
               in (gpu_available, actual_gpu_layers, \<lparr>n_gpu_layers = actual_gpu_layers\<rparr>))
            else (gpu_available, 0, \<lparr>n_gpu_layers = 0\<rparr>))
      else (False, 0, \<lparr>n_gpu_layers = 0\<rparr>))"

definition initModelWithGpu ::
  "native_env \<Rightarrow> string \<Rightarrow> int \<Rightarrow> int \<Rightarrow> bool \<Rightarrow> int \<Rightarrow> world \<Rightarrow> ptr \<times> world" where
  "initModelWithGpu E path contextSize threads useGpu gpuLayers s0 =
     (let s1 = llama_numa_init (llama_backend_init s0);
          (gpu_available0, actual_gpu_layers0, model_params) = gpu_negotiate E useGpu gpuLayers;
          (model0, s2) = llama_load_model_from_file E path model_params s1;
          (model, gpu_available, actual_gpu_layers, s3) =
             (if model0 = 0 \<and> gpu_available0 \<and> actual_gpu_layers0 > 0
              then (let (m, t) = llama_load_model_from_file E path \<lparr>n_gpu_layers = 0\<rparr> s2
                    in (m, False, 0, t))
              else (model0, gpu_available0, actual_gpu_layers0, s2))
      in if model = 0 then (0, s3)
         else
           (let ctx_params = \<lparr>n_ctx = contextSize, n_threads = threads,
                               n_threads_batch = threads, embeddings = False\<rparr>;
                (ctx, s4) = llama_new_context_with_model E model ctx_params s3
            in if ctx = 0 then (0, llama_free_model model s4)
               else new_obj (Gen_wrapper \<lparr>w_model = model, w_ctx = ctx,
                                          using_gpu = (gpu_available \<and> actual_gpu_layers > 0),
                                          gpu_layers = actual_gpu_layers\<rparr>) s4))"

definition initEmbeddingModel ::
  "native_env \<Rightarrow> string \<Rightarrow> int \<Rightarrow> int \<Rightarrow> world \<Rightarrow> ptr \<times> world" where
  "initEmbeddingModel E path contextSize threads s0 =
     (let s1 = (if \<not> backend_initialized s0
                then (llama_numa_init (llama_backend_init s0))\<lparr>backend_initialized := True\<rparr>
                else s0);
          model_params = \<lparr>n_gpu_layers = 0\<rparr>;
          (model, s2) = llama_load_model_from_file E path model_params s1
      in if model = 0 then (0, s2)
         else
           (let ctx_params = \<lparr>n_ctx = contextSize, n_threads = threads,
                               n_threads_batch = threads, embeddings = True\<rparr>;
                (ctx, s3) = llama_new_context_with_model E model ctx_params s2
            in if ctx = 0 then (0, llama_free_model model s3)
               else new_obj (Emb_wrapper \<lparr>e_model = model, e_ctx = ctx,
                                          n_embd = model_n_embd E model\<rparr>) s3))"

section \<open>Introspection and release\<close>

text \<open>
  Dereferencing a handle that is not the address of a live wrapper of the expected type
  is undefined behaviour in C++; the model makes it the error \<open>Invalid_pointer\<close>.
\<close>

definition deref_gen :: "world \<Rightarrow> ptr \<Rightarrow> error + llama_context_wrapper" where
  "deref_gen s h = (case map_of (heap s) h of
                      Some (Gen_wrapper w) \<Rightarrow> Inr w
                    | _ \<Rightarrow> Inl Invalid_pointer)"

definition deref_emb :: "world \<Rightarrow> ptr \<Rightarrow> error + embedding_context_wrapper" where
  "deref_emb s h = (case map_of (heap s) h of
                      Some (Emb_wrapper w) \<Rightarrow> Inr w
                    | _ \<Rightarrow> Inl Invalid_pointer)"

definition isUsingGpu :: "ptr \<Rightarrow> world \<Rightarrow> error + bool" where
  "isUsingGpu modelHandle s =
     (if modelHandle = 0 then Inr False
      else case deref_gen s modelHandle of
             Inl e \<Rightarrow> Inl e
           | Inr wrapper \<Rightarrow> Inr (using_gpu wrapper))"

definition getGpuLayers :: "ptr \<Rightarrow> world \<Rightarrow> error + int" where
  "getGpuLayers modelHandle s =
     (if modelHandle = 0 then Inr 0
      else case deref_gen s modelHandle of
             Inl e \<Rightarrow> Inl e
           | Inr wrapper \<Rightarrow> Inr (gpu_layers wrapper))"

definition getEmbeddingDimension :: "ptr \<Rightarrow> world \<Rightarrow> error + int" where
  "getEmbeddingDimension modelHandle s =
     (if modelHandle = 0 then Inr 0
      else case deref_emb s modelHandle of
             Inl e \<Rightarrow> Inl e
           | Inr wrapper \<Rightarrow> Inr (n_embd wrapper))"

definition freeModel :: "ptr \<Rightarrow> world \<Rightarrow> error + world" where
  "freeModel modelHandle s =
     (if modelHandle = 0 then Inr s
      else case deref_gen s modelHandle of
             Inl e \<Rightarrow> Inl e
           | Inr wrapper \<Rightarrow>
               (let s1 = (if w_ctx wrapper \<noteq> 0 then llama_free (w_ctx wrapper) s else s);
                    s2 = (if w_model wrapper \<noteq> 0 then llama_free_model (w_model wrapper) s1
                          else s1);
                    s3 = delete_obj modelHandle s2
                in Inr (llama_backend_free s3)))"

definition freeEmbeddingModel :: "ptr \<Rightarrow> world \<Rightarrow> error + world" where
  "freeEmbeddingModel modelHandle s =
     (if modelHandle = 0 then Inr s
      else case deref_emb s modelHandle of
             Inl e \<Rightarrow> Inl e
           | Inr wrapper \<Rightarrow>
               (let s1 = (if e_ctx wrapper \<noteq> 0 then llama_free (e_ctx wrapper) s else s);
                    s2 = (if e_model wrapper \<noteq> 0 then llama_free_model (e_model wrapper) s1
                          else s1)
                in Inr (delete_obj modelHandle s2)))"

text \<open>Counting in the trace.\<close>

definition backend_inits :: "world \<Rightarrow> nat" where
  "backend_inits s = length (filter (\<lambda>c. c = Backend_init) (calls s))"

definition backend_frees :: "world \<Rightarrow> nat" where
  "backend_frees s = length (filter (\<lambda>c. c = Backend_free) (calls s))"

text \<open>The calls a function added to the trace of the state \<open>s\<close> it started from.\<close>

definition new_calls :: "world \<Rightarrow> world \<Rightarrow> lib_call list" where
  "new_calls s s' = drop (length (calls s)) (calls s')"

fun is_load :: "lib_call \<Rightarrow> bool" where
  "is_load (Load_model _ _ _) = True"
| "is_load _ = False"


section \<open>Inference: the library interface\<close>

text \<open>
  Tokenising, decoding and sampling are done by the llama library, whose code is not part
  of this repository. Its functions are a parameter: a record of functions over a state
  \<open>'l\<close> of the library (contexts with their decode memory, the sampler of the running
  call). \<^verbatim>\<open>jfloat\<close> is a type parameter \<open>'f\<close>, with its arithmetic a parameter too, so that
  whatever is proved holds for IEEE single precision as for any other arithmetic.
\<close>

type_synonym llama_token = int

datatype 'f sampler_stage =
    Penalties int 'f 'f 'f
  | Top_k int
  | Top_p 'f nat
  | Temp 'f
  | Dist nat

record 'f float_ops =
  f_lit :: "int \<Rightarrow> nat \<Rightarrow> 'f"  \<comment> \<open>the literal \<open>m / 10^k\<close>, as \<^verbatim>\<open>1.15f\<close> is \<open>f_lit 115 2\<close>\<close>
  fadd :: "'f \<Rightarrow> 'f \<Rightarrow> 'f"
  fmul :: "'f \<Rightarrow> 'f \<Rightarrow> 'f"
  fdiv :: "'f \<Rightarrow> 'f \<Rightarrow> 'f"
  fsqrt :: "'f \<Rightarrow> 'f"
  fgt :: "'f \<Rightarrow> 'f \<Rightarrow> bool"

record ('l, 'f) llama_api =
  default_seed :: nat  \<comment> \<open>\<^verbatim>\<open>LLAMA_DEFAULT_SEED\<close>\<close>
  llama_tokenize :: "ptr \<Rightarrow> string \<Rightarrow> nat \<Rightarrow> int \<times> llama_token list"
    \<comment> \<open>model, text, capacity of the buffer; gives the count returned and the buffer\<close>
  sampler_init :: "'f sampler_stage list \<Rightarrow> 'l \<Rightarrow> 'l"
  sampler_free :: "'l \<Rightarrow> 'l"
  llama_memory_clear :: "ptr \<Rightarrow> 'l \<Rightarrow> 'l"
  llama_decode :: "ptr \<Rightarrow> llama_token list \<Rightarrow> 'l \<Rightarrow> int \<times> 'l"
  llama_sampler_sample :: "ptr \<Rightarrow> 'l \<Rightarrow> llama_token \<times> 'l"
  llama_vocab_is_eog :: "ptr \<Rightarrow> llama_token \<Rightarrow> bool"
  llama_token_to_piece :: "ptr \<Rightarrow> llama_token \<Rightarrow> nat \<Rightarrow> int \<times> string"
    \<comment> \<open>model, token, size of the buffer; gives the count returned and the buffer\<close>
  llama_get_embeddings_seq :: "ptr \<Rightarrow> int \<Rightarrow> 'l \<Rightarrow> (nat \<Rightarrow> 'f) option"
  llama_get_embeddings :: "ptr \<Rightarrow> 'l \<Rightarrow> (nat \<Rightarrow> 'f) option"
    \<comment> \<open>a \<^verbatim>\<open>const float*\<close>: \<open>None\<close> is null, otherwise the float read at each index\<close>

subsection \<open>Strings\<close>

text \<open>
  \<^verbatim>\<open>std::string::find\<close>: the position of the first occurrence, \<open>None\<close> for \<^verbatim>\<open>npos\<close>.
  \<^verbatim>\<open>c_str()\<close> handed to \<^verbatim>\<open>NewStringUTF\<close>: the bytes before the first NUL.
\<close>

fun find_str :: "string \<Rightarrow> string \<Rightarrow> nat option" where
  "find_str [] pat = (if pat = [] then Some 0 else None)"
| "find_str (c # cs) pat =
     (if prefix pat (c # cs) then Some 0 else map_option Suc (find_str cs pat))"

definition c_str :: "string \<Rightarrow> string" where
  "c_str s = takeWhile (\<lambda>c. c \<noteq> CHR 0x00) s"

definition im_end :: string where
  "im_end = ''<|im_end|>''"

section \<open>Generation\<close>

text \<open>
  The sampler chain both generation functions build: penalties, top-k, top-p with
  minimum keep 1, temperature, and the final draw with the default seed.
\<close>

definition sampler_chain ::
  "'f float_ops \<Rightarrow> ('l, 'f) llama_api \<Rightarrow> int \<Rightarrow> 'f \<Rightarrow> 'f \<Rightarrow> 'f sampler_stage list" where
  "sampler_chain F L topK topP temperature =
     [Penalties 256 (f_lit F 115 2) (f_lit F 1 1) (f_lit F 0 1),
      Top_k topK, Top_p topP 1, Temp temperature, Dist (default_seed L)]"

text \<open>
  The part of \<^verbatim>\<open>generate\<close> and of \<^verbatim>\<open>generateStream\<close> between the handle check and the
  loop, the same statements in both: tokenise the prompt into a buffer of
  \<^verbatim>\<open>strlen(promptStr) + 256\<close> tokens, build the sampler, clear the memory of the context,
  decode the prompt. On a failed prompt decode the sampler is freed before returning.
\<close>

datatype 'l prepared = Tokenize_failed | Prompt_decode_failed 'l | Ready 'l

definition prepare_prompt ::
  "'f float_ops \<Rightarrow> ('l, 'f) llama_api \<Rightarrow> llama_context_wrapper \<Rightarrow> string \<Rightarrow>
   'f \<Rightarrow> 'f \<Rightarrow> int \<Rightarrow> 'l \<Rightarrow> 'l prepared" where
  "prepare_prompt F L wrapper prompt temperature topP topK l0 =
     (let (n_tokens, buf) = llama_tokenize L (w_model wrapper) prompt (length prompt + 256)
      in if n_tokens < 0 then Tokenize_failed
         else
           (let tokens = take (nat n_tokens) buf;
                l1 = sampler_init L (sampler_chain F L topK topP temperature) l0;
                l2 = llama_memory_clear L (w_ctx wrapper) l1;
                (rc, l3) = llama_decode L (w_ctx wrapper) tokens l2
            in if rc \<noteq> 0 then Prompt_decode_failed (sampler_free L l3) else Ready l3))"

text \<open>
  One pass through the body of a \<^verbatim>\<open>while\<close> loop either leaves the loop (\<^verbatim>\<open>break\<close>) or
  reaches its end, where \<^verbatim>\<open>n_generated\<close> is incremented.
\<close>

datatype 'a loop_step = Break 'a | Continue 'a

text \<open>The body of the loop of \<^verbatim>\<open>generate\<close>, on the accumulated \<^verbatim>\<open>result\<close>.\<close>

definition generate_body ::
  "('l, 'f) llama_api \<Rightarrow> llama_context_wrapper \<Rightarrow> string \<times> 'l \<Rightarrow> (string \<times> 'l) loop_step" where
  "generate_body L wrapper st =
     (let (result, l) = st;
          (new_token, l1) = llama_sampler_sample L (w_ctx wrapper) l
      in if llama_vocab_is_eog L (w_model wrapper) new_token then Break (result, l1)
         else
           (let (n_piece, piece) = llama_token_to_piece L (w_model wrapper) new_token 256;
                result1 = (if n_piece > 0 then result @ take (nat n_piece) piece else result)
            in if n_piece > 0 \<and> find_str result1 im_end \<noteq> None
               then Break (take (the (find_str result1 im_end)) result1, l1)
               else
                 (let (rc, l2) = llama_decode L (w_ctx wrapper) [new_token] l1
                  in if rc \<noteq> 0 then Break (result1, l2) else Continue (result1, l2))))"

function generate_loop ::
  "('l, 'f) llama_api \<Rightarrow> llama_context_wrapper \<Rightarrow> int \<Rightarrow> string \<times> int \<times> 'l
   \<Rightarrow> string \<times> int \<times> 'l" where
  "generate_loop L wrapper maxTokens (result, n_generated, l) =
     (if n_generated < maxTokens then
        (case generate_body L wrapper (result, l) of
           Break (r, l') \<Rightarrow> (r, n_generated, l')
         | Continue (r, l') \<Rightarrow> generate_loop L wrapper maxTokens (r, n_generated + 1, l'))
      else (result, n_generated, l))"
  by pat_completeness auto
termination
  by (relation "measure (\<lambda>(L, wrapper, maxTokens, result, n_generated, l).
                           nat (maxTokens - n_generated))") auto

declare generate_loop.simps [simp del]

text \<open>
  \<^verbatim>\<open>generate\<close>: the text handed to \<^verbatim>\<open>NewStringUTF\<close>, and the state of the library after
  the call.
\<close>

definition generate ::
  "'f float_ops \<Rightarrow> ('l, 'f) llama_api \<Rightarrow> world \<Rightarrow> ptr \<Rightarrow> string \<Rightarrow> int \<Rightarrow> 'f \<Rightarrow> 'f \<Rightarrow> int
   \<Rightarrow> 'l \<Rightarrow> error + (string \<times> 'l)" where
  "generate F L s modelHandle prompt maxTokens temperature topP topK l0 =
     (if modelHandle = 0 then Inr ('''', l0)
      else case deref_gen s modelHandle of
             Inl e \<Rightarrow> Inl e
           | Inr wrapper \<Rightarrow>
               (case prepare_prompt F L wrapper prompt temperature topP topK l0 of
                  Tokenize_failed \<Rightarrow> Inr ('''', l0)
                | Prompt_decode_failed l' \<Rightarrow> Inr ('''', l')
                | Ready l3 \<Rightarrow>
                    (let (result, n_generated, l4) =
                           generate_loop L wrapper maxTokens ('''', 0, l3)
                     in Inr (c_str result, sampler_free L l4))))"

subsection \<open>Streaming\<close>

datatype event = OnToken string | OnComplete | OnError string

text \<open>
  The callback object: which of the three methods \<^verbatim>\<open>GetMethodID\<close> finds in its class.
\<close>

record callback_class =
  has_onToken :: bool
  has_onComplete :: bool
  has_onError :: bool

definition callbacks_resolved :: "callback_class \<Rightarrow> bool" where
  "callbacks_resolved cb = (has_onToken cb \<and> has_onComplete cb \<and> has_onError cb)"

text \<open>
  The body of the loop of \<^verbatim>\<open>generateStream\<close>; the third component is the list of
  callbacks made so far, oldest first.
\<close>

definition stream_body ::
  "('l, 'f) llama_api \<Rightarrow> llama_context_wrapper \<Rightarrow> string \<times> 'l \<times> event list
   \<Rightarrow> (string \<times> 'l \<times> event list) loop_step" where
  "stream_body L wrapper st =
     (let (result, l, evs) = st;
          (new_token, l1) = llama_sampler_sample L (w_ctx wrapper) l
      in if llama_vocab_is_eog L (w_model wrapper) new_token then Break (result, l1, evs)
         else
           (let (n_piece, piece) = llama_token_to_piece L (w_model wrapper) new_token 256;
                tokenStr = take (nat n_piece) piece;
                result1 = (if n_piece > 0 then result @ tokenStr else result)
            in if n_piece > 0 \<and> find_str result1 im_end \<noteq> None
               then Break (result1, l1, evs)
               else
                 (let evs1 = (if n_piece > 0 then evs @ [OnToken (c_str tokenStr)] else evs);
                      (rc, l2) = llama_decode L (w_ctx wrapper) [new_token] l1
                  in if rc \<noteq> 0 then Break (result1, l2, evs1)
                     else Continue (result1, l2, evs1))))"

function stream_loop ::
  "('l, 'f) llama_api \<Rightarrow> llama_context_wrapper \<Rightarrow> int \<Rightarrow> string \<times> int \<times> 'l \<times> event list
   \<Rightarrow> string \<times> int \<times> 'l \<times> event list" where
  "stream_loop L wrapper maxTokens (result, n_generated, l, evs) =
     (if n_generated < maxTokens then
        (case stream_body L wrapper (result, l, evs) of
           Break (r, l', evs') \<Rightarrow> (r, n_generated, l', evs')
         | Continue (r, l', evs') \<Rightarrow>
             stream_loop L wrapper maxTokens (r, n_generated + 1, l', evs'))
      else (result, n_generated, l, evs))"
  by pat_completeness auto
termination
  by (relation "measure (\<lambda>(L, wrapper, maxTokens, result, n_generated, l, evs).
                           nat (maxTokens - n_generated))") auto

declare stream_loop.simps [simp del]

text \<open>
  \<^verbatim>\<open>generateStream\<close>: the callbacks the sink receives, in order, and the state of the
  library after the call. The wrapper is first read after the callback methods have
  been looked up.
\<close>

definition generateStream ::
  "'f float_ops \<Rightarrow> ('l, 'f) llama_api \<Rightarrow> world \<Rightarrow> callback_class \<Rightarrow> ptr \<Rightarrow> string \<Rightarrow> int
   \<Rightarrow> 'f \<Rightarrow> 'f \<Rightarrow> int \<Rightarrow> 'l \<Rightarrow> error + (event list \<times> 'l)" where
  "generateStream F L s callback modelHandle prompt maxTokens temperature topP topK l0 =
     (if modelHandle = 0 then Inr ([], l0)
      else if \<not> has_onToken callback \<or> \<not> has_onComplete callback \<or> \<not> has_onError callback
      then Inr ([], l0)
      else case deref_gen s modelHandle of
             Inl e \<Rightarrow> Inl e
           | Inr wrapper \<Rightarrow>
               (case prepare_prompt F L wrapper prompt temperature topP topK l0 of
                  Tokenize_failed \<Rightarrow> Inr ([OnError ''Failed to tokenize prompt''], l0)
                | Prompt_decode_failed l' \<Rightarrow> Inr ([OnError ''Failed to decode prompt''], l')
                | Ready l3 \<Rightarrow>
                    (let (result, n_generated, l4, evs) =
                           stream_loop L wrapper maxTokens ('''', 0, l3, [])
                     in Inr (evs @ [OnComplete], sampler_free L l4))))"

text \<open>
  For stating what happens in a given iteration: the state at the start of iteration
  \<open>k\<close> (counting from 0), when the first \<open>k\<close> passes through the body all reached its end.
\<close>

fun generate_steps ::
  "('l, 'f) llama_api \<Rightarrow> llama_context_wrapper \<Rightarrow> nat \<Rightarrow> string \<times> 'l \<Rightarrow> (string \<times> 'l) option" where
  "generate_steps L wrapper 0 st = Some st"
| "generate_steps L wrapper (Suc k) st =
     (case generate_body L wrapper st of
        Break _ \<Rightarrow> None
      | Continue st' \<Rightarrow> generate_steps L wrapper k st')"

fun stream_steps ::
  "('l, 'f) llama_api \<Rightarrow> llama_context_wrapper \<Rightarrow> nat \<Rightarrow> string \<times> 'l \<times> event list
   \<Rightarrow> (string \<times> 'l \<times> event list) option" where
  "stream_steps L wrapper 0 st = Some st"
| "stream_steps L wrapper (Suc k) st =
     (case stream_body L wrapper st of
        Break _ \<Rightarrow> None
      | Continue st' \<Rightarrow> stream_steps L wrapper k st')"


section \<open>Embeddings\<close>

text \<open>
  \<^verbatim>\<open>NewFloatArray\<close>: the JNI environment may fail to allocate the array, and it creates
  no array of negative length; the result tells whether the array exists.
\<close>

record jni_env =
  alloc_succeeds :: "int \<Rightarrow> bool"

definition NewFloatArray :: "jni_env \<Rightarrow> int \<Rightarrow> bool" where
  "NewFloatArray J n = (0 \<le> n \<and> alloc_succeeds J n)"

text \<open>
  The normalisation at the end of \<^verbatim>\<open>getEmbedding\<close>: the first loop accumulates the sum of
  squares from \<^verbatim>\<open>0.0f\<close> in index order, \<^verbatim>\<open>sqrtf\<close> gives the norm, and the second or third
  loop fills \<^verbatim>\<open>normalized\<close>. The comparison \<^verbatim>\<open>norm > 0\<close> is against \<open>f_lit F 0 0\<close>.
\<close>

definition sum_squares :: "'f float_ops \<Rightarrow> (nat \<Rightarrow> 'f) \<Rightarrow> nat \<Rightarrow> 'f" where
  "sum_squares F embd n =
     fold (\<lambda>i norm. fadd F norm (fmul F (embd i) (embd i))) [0..<n] (f_lit F 0 0)"

definition l2_normalize :: "'f float_ops \<Rightarrow> (nat \<Rightarrow> 'f) \<Rightarrow> nat \<Rightarrow> 'f list" where
  "l2_normalize F embd n =
     (let norm = fsqrt F (sum_squares F embd n)
      in if fgt F norm (f_lit F 0 0)
         then map (\<lambda>i. fdiv F (embd i) norm) [0..<n]
         else map (\<lambda>i. embd i) [0..<n])"

text \<open>
  \<^verbatim>\<open>getEmbedding\<close>: the float array returned (\<open>None\<close> for \<^verbatim>\<open>nullptr\<close>) and the state of the
  library after the call.
\<close>

definition getEmbedding ::
  "'f float_ops \<Rightarrow> ('l, 'f) llama_api \<Rightarrow> jni_env \<Rightarrow> world \<Rightarrow> ptr \<Rightarrow> string \<Rightarrow> 'l
   \<Rightarrow> error + ('f list option \<times> 'l)" where
  "getEmbedding F L J s modelHandle txt l0 =
     (if modelHandle = 0 then Inr (None, l0)
      else case deref_emb s modelHandle of
             Inl e \<Rightarrow> Inl e
           | Inr wrapper \<Rightarrow>
               (let (n_tokens, buf) = llama_tokenize L (e_model wrapper) txt (length txt + 256)
                in if n_tokens < 0 then Inr (None, l0)
                   else
                     (let tokens = take (nat n_tokens) buf;
                          l1 = llama_memory_clear L (e_ctx wrapper) l0;
                          (rc, l2) = llama_decode L (e_ctx wrapper) tokens l1
                      in if rc \<noteq> 0 then Inr (None, l2)
                         else
                           (let embd = (case llama_get_embeddings_seq L (e_ctx wrapper) 0 l2 of
                                          None \<Rightarrow> llama_get_embeddings L (e_ctx wrapper) l2
                                        | Some e \<Rightarrow> Some e)
                            in case embd of
                                 None \<Rightarrow> Inr (None, l2)
                               | Some embd \<Rightarrow>
                                   if \<not> NewFloatArray J (n_embd wrapper) then Inr (None, l2)
                                   else Inr (Some (l2_normalize F embd (nat (n_embd wrapper))),
                                             l2)))))"


section \<open>Sequences of creation calls, and exact arithmetic\<close>

text \<open>
  A sequence of session-creation calls made by the application, run one after the other
  on the process state (the handles returned are dropped).
\<close>

datatype create_call =
    Init_model string int int
  | Init_model_gpu string int int bool int
  | Init_embedding string int int

fun run_create :: "native_env \<Rightarrow> create_call \<Rightarrow> world \<Rightarrow> world" where
  "run_create E (Init_model p c t) s = snd (initModel E p c t s)"
| "run_create E (Init_model_gpu p c t u g) s = snd (initModelWithGpu E p c t u g s)"
| "run_create E (Init_embedding p c t) s = snd (initEmbeddingModel E p c t s)"

fun is_embedding_call :: "create_call \<Rightarrow> bool" where
  "is_embedding_call (Init_embedding _ _ _) = True"
| "is_embedding_call _ = False"

text \<open>
  The arithmetic of the real numbers, to compare with: what the normalisation achieves
  when no operation rounds.
\<close>

definition real_float :: "real float_ops" where
  "real_float = \<lparr>f_lit = (\<lambda>m k. real_of_int m / 10 ^ k),
                 fadd = (+), fmul = (*), fdiv = (/), fsqrt = sqrt, fgt = (\<lambda>x y. x > y)\<rparr>"


section \<open>Concrete environments for the examples\<close>

definition env_no_context :: native_env where
  "env_no_context = \<lparr>vulkan_compiled = True,
                      load_succeeds = (\<lambda>_ _ _. True),
                      context_succeeds = (\<lambda>_ _ _. False),
                      model_n_embd = (\<lambda>_. 384)\<rparr>"


text \<open>A library on which every load and every context build succeeds, with Vulkan compiled in.\<close>

definition env_ok :: native_env where
  "env_ok = \<lparr>vulkan_compiled = True,
             load_succeeds = (\<lambda>_ _ _. True),
             context_succeeds = (\<lambda>_ _ _. True),
             model_n_embd = (\<lambda>_. 384)\<rparr>"

text \<open>The process after creating a CPU session and then a GPU session on it.\<close>

definition two_sessions :: world where
  "two_sessions =
     snd (initModelWithGpu env_ok ''b.gguf'' 2048 4 True (-1)
            (snd (initModel env_ok ''a.gguf'' 2048 4 world0)))"

text \<open>
  A process holding one generation session, and one holding one embedding session, each
  at handle \<open>1\<close>; and the same processes after that session has been released once.
\<close>

definition gen_session :: world where
  "gen_session = snd (initModel env_ok ''a.gguf'' 2048 4 world0)"

definition emb_session :: world where
  "emb_session = snd (initEmbeddingModel env_ok ''e.gguf'' 512 4 world0)"

definition gen_session_freed :: world where
  "gen_session_freed =
     \<lparr>calls = [Backend_init, Numa_init, Load_model ''a.gguf'' \<lparr>n_gpu_layers = 0\<rparr> 1,
               New_context 1 \<lparr>n_ctx = 2048, n_threads = 4, n_threads_batch = 4,
                               embeddings = False\<rparr> 1,
               Free_ctx 1, Free_model 1, Backend_free],
      live_models = [], live_ctxs = [], heap = [], backend_initialized = False\<rparr>"

definition emb_session_freed :: world where
  "emb_session_freed =
     \<lparr>calls = [Backend_init, Numa_init, Load_model ''e.gguf'' \<lparr>n_gpu_layers = 0\<rparr> 1,
               New_context 1 \<lparr>n_ctx = 512, n_threads = 4, n_threads_batch = 4,
                               embeddings = True\<rparr> 1,
               Free_ctx 1, Free_model 1],
      live_models = [], live_ctxs = [], heap = [], backend_initialized = True\<rparr>"

text \<open>The same library built without Vulkan.\<close>

definition env_no_vulkan :: native_env where
  "env_no_vulkan = env_ok\<lparr>vulkan_compiled := False\<rparr>"

text \<open>A library with Vulkan on which only a load with no GPU layers succeeds.\<close>

definition env_gpu_load_fails :: native_env where
  "env_gpu_load_fails = env_ok\<lparr>load_succeeds := (\<lambda>_ _ mp. n_gpu_layers mp = 0)\<rparr>"

text \<open>
  A small library for the examples. Its state is the list of tokens the sampler will draw;
  token 0 ends the generation; decoding a batch that holds token 13 fails; a prompt is
  tokenised byte by byte, except \<open>''?''\<close>, which the tokeniser rejects. Floats are
  integers in it, with truncating division and the integer square root.
\<close>

fun toy_piece :: "llama_token \<Rightarrow> string" where
  "toy_piece t =
     (if t = 1 then ''Hi'' else if t = 2 then ''<|im_'' else if t = 3 then ''end|>!''
      else if t = 13 then ''x'' else [])"

fun toy_sqrt_from :: "nat \<Rightarrow> nat \<Rightarrow> nat" where
  "toy_sqrt_from 0 n = 0"
| "toy_sqrt_from (Suc k) n = (if Suc k * Suc k \<le> n then Suc k else toy_sqrt_from k n)"

definition toy_float :: "int float_ops" where
  "toy_float = \<lparr>f_lit = (\<lambda>m k. m div 10 ^ k),
                fadd = (+), fmul = (*), fdiv = (div),
                fsqrt = (\<lambda>x. int (toy_sqrt_from (nat x) (nat x))),
                fgt = (\<lambda>x y. x > y)\<rparr>"

definition toy_api :: "(llama_token list, int) llama_api" where
  "toy_api =
     \<lparr>default_seed = 4294967295,
      llama_tokenize = (\<lambda>m text cap.
         if text = ''?'' then (-1, []) else (int (length text), map (\<lambda>c. int (of_char c)) text)),
      sampler_init = (\<lambda>chain l. l),
      sampler_free = (\<lambda>l. l),
      llama_memory_clear = (\<lambda>c l. l),
      llama_decode = (\<lambda>c toks l. (if 13 \<in> set toks then 1 else 0, l)),
      llama_sampler_sample = (\<lambda>c l. case l of [] \<Rightarrow> (0, []) | t # ts \<Rightarrow> (t, ts)),
      llama_vocab_is_eog = (\<lambda>m t. t = 0),
      llama_token_to_piece = (\<lambda>m t n. (int (length (toy_piece t)), toy_piece t)),
      llama_get_embeddings_seq = (\<lambda>c i l. None),
      llama_get_embeddings = (\<lambda>c l. case l of [] \<Rightarrow> None | _ \<Rightarrow> Some (\<lambda>i. l ! i))\<rparr>"

text \<open>The wrapper of the session of \<open>gen_session\<close>.\<close>

definition gen_wrapper :: llama_context_wrapper where
  "gen_wrapper = \<lparr>w_model = 1, w_ctx = 1, using_gpu = False, gpu_layers = 0\<rparr>"

text \<open>A callback object with all three methods, and one whose class has no \<^verbatim>\<open>onError\<close>.\<close>

definition cb_full :: callback_class where
  "cb_full = \<lparr>has_onToken = True, has_onComplete = True, has_onError = True\<rparr>"

definition cb_no_onError :: callback_class where
  "cb_no_onError = \<lparr>has_onToken = True, has_onComplete = True, has_onError = False\<rparr>"

text \<open>
  A process holding one embedding session of dimension 2, and a JNI environment in which
  every allocation succeeds.
\<close>

definition emb2_session :: world where
  "emb2_session =
     snd (initEmbeddingModel (env_ok\<lparr>model_n_embd := (\<lambda>_. 2)\<rparr>) ''e.gguf'' 512 4 world0)"

definition jni_ok :: jni_env where
  "jni_ok = \<lparr>alloc_succeeds = (\<lambda>_. True)\<rparr>"

section \<open>Single-precision arithmetic\<close>

text \<open>
  \<^verbatim>\<open>float\<close> on the targets of this library is IEEE 754 binary32 with rounding to nearest,
  ties to even. A finite value is the rational number it denotes (the two zeros are not
  told apart), \<open>F_inf s\<close> is the infinity of sign \<open>s\<close> (\<open>True\<close> for negative), and
  \<open>F_nan\<close> is a NaN. Every operation computes the exact result and rounds it:
  \<open>round_f32\<close> picks the exponent (subnormal below \<open>2^-126\<close>), rounds the significand to
  24 bits, and overflows to infinity from \<open>2^128\<close> on.
\<close>

datatype f32 = F_fin rat | F_inf bool | F_nan

definition pow2 :: "int \<Rightarrow> rat" where
  "pow2 e = (if 0 \<le> e then 2 ^ nat e else 1 / 2 ^ nat (- e))"

fun exponent_from :: "nat \<Rightarrow> int \<Rightarrow> rat \<Rightarrow> int" where
  "exponent_from 0 e a = e"
| "exponent_from (Suc n) e a = (if a < pow2 (e + 1) then e else exponent_from n (e + 1) a)"

definition round_half_even :: "rat \<Rightarrow> int" where
  "round_half_even x =
     (let f = \<lfloor>x\<rfloor>; d = x - of_int f
      in if d < 1 / 2 then f else if 1 / 2 < d then f + 1 else if even f then f else f + 1)"

definition round_f32 :: "rat \<Rightarrow> f32" where
  "round_f32 q =
     (if q = 0 then F_fin 0
      else if pow2 128 \<le> \<bar>q\<bar> then F_inf (q < 0)
      else
        (let a = \<bar>q\<bar>;
             e = exponent_from 253 (- 126) a;
             quantum = pow2 (e - 23);
             r = of_int (round_half_even (a / quantum)) * quantum
         in if pow2 128 \<le> r then F_inf (q < 0) else F_fin (if q < 0 then - r else r)))"

fun f32_add :: "f32 \<Rightarrow> f32 \<Rightarrow> f32" where
  "f32_add (F_fin a) (F_fin b) = round_f32 (a + b)"
| "f32_add (F_inf s) (F_inf t) = (if s = t then F_inf s else F_nan)"
| "f32_add (F_inf s) (F_fin b) = F_inf s"
| "f32_add (F_fin a) (F_inf t) = F_inf t"
| "f32_add _ _ = F_nan"

fun f32_mul :: "f32 \<Rightarrow> f32 \<Rightarrow> f32" where
  "f32_mul (F_fin a) (F_fin b) = round_f32 (a * b)"
| "f32_mul (F_inf s) (F_inf t) = F_inf (s \<noteq> t)"
| "f32_mul (F_inf s) (F_fin b) = (if b = 0 then F_nan else F_inf (s \<noteq> (b < 0)))"
| "f32_mul (F_fin a) (F_inf t) = (if a = 0 then F_nan else F_inf (t \<noteq> (a < 0)))"
| "f32_mul _ _ = F_nan"

fun f32_div :: "f32 \<Rightarrow> f32 \<Rightarrow> f32" where
  "f32_div (F_fin a) (F_fin b) =
     (if b = 0 then (if a = 0 then F_nan else F_inf (a < 0)) else round_f32 (a / b))"
| "f32_div (F_inf s) (F_inf t) = F_nan"
| "f32_div (F_inf s) (F_fin b) = F_inf (s \<noteq> (b < 0))"
| "f32_div (F_fin a) (F_inf t) = F_fin 0"
| "f32_div _ _ = F_nan"

text \<open>
  The square root: the exponent of the root is half that of the argument, and the
  significand is the integer square root of the scaled argument, found bit by bit and
  rounded to nearest (a tie cannot occur).
\<close>

fun isqrt_bits :: "nat \<Rightarrow> int \<Rightarrow> rat \<Rightarrow> int" where
  "isqrt_bits 0 r t = r"
| "isqrt_bits (Suc b) r t =
     (let c = r + 2 ^ b in isqrt_bits b (if of_int (c * c) \<le> t then c else r) t)"

fun f32_sqrt :: "f32 \<Rightarrow> f32" where
  "f32_sqrt (F_fin q) =
     (if q < 0 then F_nan
      else if q = 0 then F_fin 0
      else
        (let e = exponent_from 276 (- 149) q div 2;
             quantum = pow2 (e - 23);
             t = q / (quantum * quantum);
             m0 = isqrt_bits 24 0 t;
             m = (if t < (of_int m0 + 1 / 2) * (of_int m0 + 1 / 2) then m0 else m0 + 1)
         in F_fin (of_int m * quantum)))"
| "f32_sqrt (F_inf s) = (if s then F_nan else F_inf False)"
| "f32_sqrt F_nan = F_nan"

fun f32_gt :: "f32 \<Rightarrow> f32 \<Rightarrow> bool" where
  "f32_gt (F_fin a) (F_fin b) = (b < a)"
| "f32_gt (F_inf s) (F_inf t) = (\<not> s \<and> t)"
| "f32_gt (F_inf s) (F_fin b) = (\<not> s)"
| "f32_gt (F_fin a) (F_inf t) = t"
| "f32_gt _ _ = False"

definition binary32 :: "f32 float_ops" where
  "binary32 = \<lparr>f_lit = (\<lambda>m k. round_f32 (of_int m / 10 ^ k)),
               fadd = f32_add, fmul = f32_mul, fdiv = f32_div,
               fsqrt = f32_sqrt, fgt = f32_gt\<rparr>"



text \<open>
  A library for the embedding examples: its state is the pooled vector it will hand out
  for sequence 0; tokenising and decoding always succeed.
\<close>

definition vec_api :: "(f32 list, f32) llama_api" where
  "vec_api =
     \<lparr>default_seed = 4294967295,
      llama_tokenize = (\<lambda>m text cap. (int (length text), map (\<lambda>c. int (of_char c)) text)),
      sampler_init = (\<lambda>chain l. l),
      sampler_free = (\<lambda>l. l),
      llama_memory_clear = (\<lambda>c l. l),
      llama_decode = (\<lambda>c toks l. (0, l)),
      llama_sampler_sample = (\<lambda>c l. (0, l)),
      llama_vocab_is_eog = (\<lambda>m t. True),
      llama_token_to_piece = (\<lambda>m t n. (0, [])),
      llama_get_embeddings_seq = (\<lambda>c i l. if i = 0 then Some (\<lambda>k. l ! k) else None),
      llama_get_embeddings = (\<lambda>c l. None)\<rparr>"

section \<open>Basic facts about allocation and the trace\<close>

lemmas lib_defs = llama_backend_init_def llama_numa_init_def llama_backend_free_def
  llama_load_model_from_file_def llama_new_context_with_model_def llama_free_def
  llama_free_model_def new_obj_def delete_obj_def

lemma fold_max_ge_init: "(a::nat) \<le> fold max ps a"
proof (induction ps arbitrary: a)
  case Nil
  show ?case by simp
next
  case (Cons q qs)
  have "a \<le> max q a" by simp
  also have "\<dots> \<le> fold max qs (max q a)" by (rule Cons.IH)
  finally show ?case by simp
qed

lemma fold_max_ge_elem: "p \<in> set ps \<Longrightarrow> (p::nat) \<le> fold max ps a"
proof (induction ps arbitrary: a)
  case Nil
  then show ?case by simp
next
  case (Cons q qs)
  show ?case
  proof (cases "p = q")
    case True
    have "q \<le> max q a" by simp
    also have "\<dots> \<le> fold max qs (max q a)" by (rule fold_max_ge_init)
    finally show ?thesis using True by simp
  next
    case False
    with Cons.prems have "p \<in> set qs" by simp
    then show ?thesis using Cons.IH by simp
  qed
qed

lemma fresh_ptr_fresh: "fresh_ptr ps \<notin> set ps"
  using fold_max_ge_elem[of "fresh_ptr ps" ps 0] by (auto simp: fresh_ptr_def)

lemma fresh_ptr_nonzero: "fresh_ptr ps \<noteq> 0"
  by (simp add: fresh_ptr_def)

lemma fresh_ptr_pos: "0 < fresh_ptr ps"
  by (simp add: fresh_ptr_def)

lemma removeAll_fresh: "removeAll (fresh_ptr ps) ps = ps"
  by (simp add: fresh_ptr_fresh)

lemma map_of_filter_other:
  "k \<noteq> a \<Longrightarrow> map_of (filter (\<lambda>(b, _). b \<noteq> a) xs) k = map_of xs k"
  by (induction xs) auto

lemma map_of_filter_same: "map_of (filter (\<lambda>(b, _). b \<noteq> a) xs) a = None"
  by (induction xs) auto

lemma new_calls_append [simp]: "calls s' = calls s @ cs \<Longrightarrow> new_calls s s' = cs"
  by (simp add: new_calls_def)


section \<open>The example processes evaluated\<close>

lemma two_sessions_eq:
  "two_sessions =
     \<lparr>calls = [Backend_init, Numa_init, Load_model ''a.gguf'' \<lparr>n_gpu_layers = 0\<rparr> 1,
               New_context 1 \<lparr>n_ctx = 2048, n_threads = 4, n_threads_batch = 4,
                               embeddings = False\<rparr> 1,
               Backend_init, Numa_init, Load_model ''b.gguf'' \<lparr>n_gpu_layers = 99\<rparr> 2,
               New_context 2 \<lparr>n_ctx = 2048, n_threads = 4, n_threads_batch = 4,
                               embeddings = False\<rparr> 2],
      live_models = [2, 1], live_ctxs = [2, 1],
      heap = [(2, Gen_wrapper \<lparr>w_model = 2, w_ctx = 2, using_gpu = True, gpu_layers = 99\<rparr>),
              (1, Gen_wrapper \<lparr>w_model = 1, w_ctx = 1, using_gpu = False, gpu_layers = 0\<rparr>)],
      backend_initialized = False\<rparr>"
  by (simp add: two_sessions_def initModel_def initModelWithGpu_def gpu_negotiate_def
        detect_vulkan_available_def env_ok_def world0_def lib_defs fresh_ptr_def Let_def)

lemma gen_session_eq:
  "gen_session =
     \<lparr>calls = [Backend_init, Numa_init, Load_model ''a.gguf'' \<lparr>n_gpu_layers = 0\<rparr> 1,
               New_context 1 \<lparr>n_ctx = 2048, n_threads = 4, n_threads_batch = 4,
                               embeddings = False\<rparr> 1],
      live_models = [1], live_ctxs = [1],
      heap = [(1, Gen_wrapper \<lparr>w_model = 1, w_ctx = 1, using_gpu = False, gpu_layers = 0\<rparr>)],
      backend_initialized = False\<rparr>"
  by (simp add: gen_session_def initModel_def env_ok_def world0_def lib_defs fresh_ptr_def
        Let_def)

lemma emb_session_eq:
  "emb_session =
     \<lparr>calls = [Backend_init, Numa_init, Load_model ''e.gguf'' \<lparr>n_gpu_layers = 0\<rparr> 1,
               New_context 1 \<lparr>n_ctx = 512, n_threads = 4, n_threads_batch = 4,
                               embeddings = True\<rparr> 1],
      live_models = [1], live_ctxs = [1],
      heap = [(1, Emb_wrapper \<lparr>e_model = 1, e_ctx = 1, n_embd = 384\<rparr>)],
      backend_initialized = True\<rparr>"
  by (simp add: emb_session_def initEmbeddingModel_def env_ok_def world0_def lib_defs
        fresh_ptr_def Let_def)

section \<open>Releasing sessions\<close>

lemma deref_gen_map_of:
  "deref_gen s h = Inr w \<longleftrightarrow> map_of (heap s) h = Some (Gen_wrapper w)"
  by (auto simp: deref_gen_def split: option.splits heap_obj.splits)

lemma deref_emb_map_of:
  "deref_emb s h = Inr w \<longleftrightarrow> map_of (heap s) h = Some (Emb_wrapper w)"
  by (auto simp: deref_emb_def split: option.splits heap_obj.splits)

lemma freeModel_live:
  assumes "h \<noteq> 0" and "deref_gen s h = Inr w"
  shows "\<exists>s'. freeModel h s = Inr s'
           \<and> calls s' = calls s @ (if w_ctx w \<noteq> 0 then [Free_ctx (w_ctx w)] else [])
                                @ (if w_model w \<noteq> 0 then [Free_model (w_model w)] else [])
                                @ [Backend_free]
           \<and> heap s' = filter (\<lambda>(b, _). b \<noteq> h) (heap s)
           \<and> live_ctxs s' = (if w_ctx w \<noteq> 0 then removeAll (w_ctx w) (live_ctxs s)
                              else live_ctxs s)
           \<and> live_models s' = (if w_model w \<noteq> 0 then removeAll (w_model w) (live_models s)
                                else live_models s)"
  using assms by (simp add: freeModel_def lib_defs Let_def)

lemma freeEmbeddingModel_live:
  assumes "h \<noteq> 0" and "deref_emb s h = Inr w"
  shows "\<exists>s'. freeEmbeddingModel h s = Inr s'
           \<and> calls s' = calls s @ (if e_ctx w \<noteq> 0 then [Free_ctx (e_ctx w)] else [])
                                @ (if e_model w \<noteq> 0 then [Free_model (e_model w)] else [])
           \<and> heap s' = filter (\<lambda>(b, _). b \<noteq> h) (heap s)
           \<and> live_ctxs s' = (if e_ctx w \<noteq> 0 then removeAll (e_ctx w) (live_ctxs s)
                              else live_ctxs s)
           \<and> live_models s' = (if e_model w \<noteq> 0 then removeAll (e_model w) (live_models s)
                                else live_models s)"
  using assms by (simp add: freeEmbeddingModel_def lib_defs Let_def)

lemma freeEmbeddingModel_no_backend_free:
  "freeEmbeddingModel h s = Inr s' \<Longrightarrow> backend_frees s' = backend_frees s"
  by (auto simp: freeEmbeddingModel_def backend_frees_def lib_defs Let_def
           split: if_splits sum.splits)


section \<open>The small library evaluated\<close>

lemma toy_simps:
  "llama_sampler_sample toy_api c (t # ts) = (t, ts)"
  "llama_sampler_sample toy_api c [] = (0, [])"
  "llama_vocab_is_eog toy_api m t = (t = 0)"
  "llama_token_to_piece toy_api m t k = (int (length (toy_piece t)), toy_piece t)"
  "llama_decode toy_api c toks l = (if 13 \<in> set toks then 1 else 0, l)"
  "llama_tokenize toy_api m text cap =
     (if text = ''?'' then (-1, []) else (int (length text), map (\<lambda>c. int (of_char c)) text))"
  "sampler_init toy_api ch l = l"
  "sampler_free toy_api l = l"
  "llama_memory_clear toy_api c l = l"
  by (simp_all add: toy_api_def)

lemma deref_gen_session: "deref_gen gen_session (Suc 0) = Inr gen_wrapper"
  by (simp add: gen_session_eq deref_gen_def gen_wrapper_def)

lemma toy_prepare: "prepare_prompt toy_float toy_api gen_wrapper ''q'' 7 9 40 l = Ready l"
  by (simp add: prepare_prompt_def toy_simps Let_def)

lemma emb2_session_eq:
  "emb2_session =
     \<lparr>calls = [Backend_init, Numa_init, Load_model ''e.gguf'' \<lparr>n_gpu_layers = 0\<rparr> 1,
               New_context 1 \<lparr>n_ctx = 512, n_threads = 4, n_threads_batch = 4,
                               embeddings = True\<rparr> 1],
      live_models = [1], live_ctxs = [1],
      heap = [(1, Emb_wrapper \<lparr>e_model = 1, e_ctx = 1, n_embd = 2\<rparr>)],
      backend_initialized = True\<rparr>"
  by (simp add: emb2_session_def initEmbeddingModel_def env_ok_def world0_def lib_defs
        fresh_ptr_def Let_def)

lemma upt2: "[0..<2] = [0, 1]"
  by (simp add: upt_rec)

lemma binary32_simps:
  "f_lit binary32 m k = round_f32 (of_int m / 10 ^ k)"
  "fadd binary32 = f32_add" "fmul binary32 = f32_mul" "fdiv binary32 = f32_div"
  "fsqrt binary32 = f32_sqrt" "fgt binary32 = f32_gt"
  by (simp_all add: binary32_def)

lemma vec_api_simps:
  "llama_tokenize vec_api m txt cap = (int (length txt), map (\<lambda>c. int (of_char c)) txt)"
  "llama_memory_clear vec_api c l = l"
  "llama_decode vec_api c toks l = (0, l)"
  "llama_get_embeddings_seq vec_api c 0 l = Some (\<lambda>k. l ! k)"
  by (simp_all add: vec_api_def)

lemma round_f32_zero: "round_f32 0 = F_fin 0"
  by (simp add: round_f32_def)

text \<open>The arithmetic agrees with known single-precision values.\<close>

lemma binary32_known_values:
  "round_f32 (115 / 10 ^ 2) = F_fin (9646899 / 2 ^ 23)"
  "round_f32 (1 / 10 ^ 1) = F_fin (13421773 / 2 ^ 27)"
  "f32_sqrt (F_fin 2) = F_fin (11863283 / 2 ^ 23)"
  "f32_div (F_fin 1) (F_fin 3) = F_fin (11184811 / 2 ^ 25)"
  "round_f32 16777217 = F_fin 16777216"
  "round_f32 (1 / 2 ^ 150) = F_fin 0"
  "round_f32 (3 / 2 ^ 150) = F_fin (1 / 2 ^ 148)"
  by code_simp+

lemma f32_underflow:
  "f32_mul (F_fin (1 / 2 ^ 80)) (F_fin (1 / 2 ^ 80)) = F_fin 0"
  "f32_add (F_fin 0) (F_fin 0) = F_fin 0"
  "f32_sqrt (F_fin 0) = F_fin 0"
  "\<not> f32_gt (F_fin 0) (F_fin 0)"
  by code_simp+

lemma f32_overflow:
  "f32_mul (F_fin (2 ^ 70)) (F_fin (2 ^ 70)) = F_inf False"
  "f32_add (F_fin 0) (F_inf False) = F_inf False"
  "f32_add (F_inf False) (F_inf False) = F_inf False"
  "f32_sqrt (F_inf False) = F_inf False"
  "f32_gt (F_inf False) (F_fin 0)"
  "f32_div (F_fin (2 ^ 70)) (F_inf False) = F_fin 0"
  by code_simp+

lemma f32_three_four:
  "f32_mul (F_fin 3) (F_fin 3) = F_fin 9"
  "f32_mul (F_fin 4) (F_fin 4) = F_fin 16"
  "f32_add (F_fin 0) (F_fin 9) = F_fin 9"
  "f32_add (F_fin 9) (F_fin 16) = F_fin 25"
  "f32_sqrt (F_fin 25) = F_fin 5"
  "f32_gt (F_fin 5) (F_fin 0)"
  "f32_div (F_fin 3) (F_fin 5) = F_fin (10066330 / 2 ^ 24)"
  "f32_div (F_fin 4) (F_fin 5) = F_fin (13421773 / 2 ^ 24)"
  by code_simp+

lemma deref_emb2_session:
  "deref_emb emb2_session (Suc 0) = Inr \<lparr>e_model = 1, e_ctx = 1, n_embd = 2\<rparr>"
  by (simp add: emb2_session_eq deref_emb_def)

lemma getEmbedding_vec:
  "getEmbedding binary32 vec_api jni_ok emb2_session 1 ''ab'' [x, y] =
     Inr (Some (l2_normalize binary32 (\<lambda>k. [x, y] ! k) 2), [x, y])"
  by (simp add: getEmbedding_def deref_emb2_session vec_api_simps NewFloatArray_def
        jni_ok_def Let_def)

lemma l2_normalize_two:
  "l2_normalize binary32 (\<lambda>k. [x, y] ! k) 2 =
     (let norm = f32_sqrt (f32_add (f32_add (F_fin 0) (f32_mul x x)) (f32_mul y y))
      in if f32_gt norm (F_fin 0) then [f32_div x norm, f32_div y norm] else [x, y])"
  by (simp add: l2_normalize_def sum_squares_def binary32_simps round_f32_zero upt2 Let_def)

lemma getEmbedding_three_four:
  "getEmbedding binary32 vec_api jni_ok emb2_session 1 ''ab'' [F_fin 3, F_fin 4]
     = Inr (Some [F_fin (10066330 / 2 ^ 24), F_fin (13421773 / 2 ^ 24)], [F_fin 3, F_fin 4])"
  by (simp only: getEmbedding_vec l2_normalize_two f32_three_four Let_def if_True)


section \<open>The stop marker\<close>

lemma find_str_None_iff: "find_str s p = None \<longleftrightarrow> \<not> sublist p s"
  by (induction s) (auto simp: sublist_Cons_right)

lemma find_str_Some_iff_sublist: "(\<exists>n. find_str s p = Some n) \<longleftrightarrow> sublist p s"
  using find_str_None_iff[of s p] by auto

lemma find_str_first:
  "find_str s p = Some n \<Longrightarrow> p \<noteq> [] \<Longrightarrow>
     n \<le> length s \<and> prefix p (drop n s) \<and> \<not> sublist p (take n s)"
proof (induction s arbitrary: n)
  case Nil
  then show ?case by simp
next
  case (Cons c cs)
  show ?case
  proof (cases "prefix p (c # cs)")
    case True
    with Cons.prems show ?thesis by simp
  next
    case False
    with Cons.prems obtain m where m: "find_str cs p = Some m" "n = Suc m"
      by auto
    from Cons.IH[OF m(1) Cons.prems(2)]
    have ih: "m \<le> length cs" "prefix p (drop m cs)" "\<not> sublist p (take m cs)"
      by simp_all
    have "\<not> prefix p (c # take m cs)"
    proof
      assume "prefix p (c # take m cs)"
      moreover have "prefix (c # take m cs) (c # cs)"
        by (simp add: take_is_prefix)
      ultimately have "prefix p (c # cs)" by (rule prefix_order.trans)
      with False show False by contradiction
    qed
    with ih m show ?thesis
      by (simp add: sublist_Cons_right)
  qed
qed

lemma not_sublist_c_str: "\<not> sublist p s \<Longrightarrow> \<not> sublist p (c_str s)"
proof
  assume n: "\<not> sublist p s" and c: "sublist p (c_str s)"
  have "sublist (c_str s) s"
    by (simp add: c_str_def)
  with c have "sublist p s" by (rule sublist_order.order_trans)
  with n show False by contradiction
qed

lemma im_end_nonempty: "im_end \<noteq> []"
  by (simp add: im_end_def)

text \<open>The body keeps the accumulated result free of the marker.\<close>

lemma generate_body_marker_free:
  assumes "\<not> sublist im_end result"
  shows "case generate_body L w (result, l) of
           Break (r, l') \<Rightarrow> \<not> sublist im_end r
         | Continue (r, l') \<Rightarrow> \<not> sublist im_end r"
proof -
  obtain tok l1 where s: "llama_sampler_sample L (w_ctx w) l = (tok, l1)"
    by (cases "llama_sampler_sample L (w_ctx w) l")
  obtain np piece where t: "llama_token_to_piece L (w_model w) tok 256 = (np, piece)"
    by (cases "llama_token_to_piece L (w_model w) tok 256")
  obtain rc l2 where d: "llama_decode L (w_ctx w) [tok] l1 = (rc, l2)"
    by (cases "llama_decode L (w_ctx w) [tok] l1")
  let ?r1 = "if np > 0 then result @ take (nat np) piece else result"
  show ?thesis
  proof (cases "np > 0 \<and> find_str ?r1 im_end \<noteq> None")
    case True
    then obtain pos where p: "find_str ?r1 im_end = Some pos" by auto
    from find_str_first[OF p im_end_nonempty]
    have "\<not> sublist im_end (take pos ?r1)" by simp
    with True p assms show ?thesis
      by (simp add: generate_body_def s t d Let_def del: take_append)
  next
    case False
    then have "\<not> sublist im_end ?r1"
      using assms by (auto simp: find_str_None_iff)
    with False show ?thesis
      using assms by (auto simp: generate_body_def s t d Let_def)
  qed
qed

lemma generate_loop_marker_free:
  "\<not> sublist im_end result \<Longrightarrow>
   \<not> sublist im_end (fst (generate_loop L w maxTokens (result, n, l)))"
proof (induction L w maxTokens "(result, n, l)" arbitrary: result n l rule: generate_loop.induct)
  case (1 L w maxTokens result n l)
  show ?case
  proof (cases "n < maxTokens")
    case False
    with "1.prems" show ?thesis by (simp add: generate_loop.simps)
  next
    case True
    note b = generate_body_marker_free[OF "1.prems", of L w l]
    show ?thesis
    proof (cases "generate_body L w (result, l)")
      case (Break st)
      with b True show ?thesis
        by (cases st) (simp add: generate_loop.simps)
    next
      case (Continue st)
      obtain r l' where st: "st = (r, l')" by (cases st)
      with b Continue have "\<not> sublist im_end r" by simp
      from "1.hyps"[OF True Continue[unfolded st] refl this] True Continue st
      show ?thesis by (simp add: generate_loop.simps)
    qed
  qed
qed


section \<open>The streaming loop\<close>

lemma stream_body_events:
  assumes "stream_body L w (r, l, evs) = Break (r', l', evs')
           \<or> stream_body L w (r, l, evs) = Continue (r', l', evs')"
  shows "\<exists>toks. evs' = evs @ map OnToken toks"
proof -
  from assms have "evs' = evs @ map OnToken [] \<or> (\<exists>t. evs' = evs @ map OnToken [t])"
    by (auto simp: stream_body_def Let_def split: prod.splits if_splits)
  then show ?thesis by blast
qed

lemma stream_loop_events:
  "stream_loop L w maxTokens (r, n, l, evs) = (r', n', l', evs') \<Longrightarrow>
   \<exists>toks. evs' = evs @ map OnToken toks"
proof (induction L w maxTokens "(r, n, l, evs)" arbitrary: r n l evs
       rule: stream_loop.induct)
  case (1 L w maxTokens r n l evs)
  show ?case
  proof (cases "n < maxTokens")
    case False
    with "1.prems" have "evs' = evs @ map OnToken []"
      by (simp add: stream_loop.simps)
    then show ?thesis by blast
  next
    case True
    show ?thesis
    proof (cases "stream_body L w (r, l, evs)")
      case (Break st)
      obtain r1 l1 e1 where st: "st = (r1, l1, e1)" by (cases st)
      with "1.prems" True Break have "evs' = e1"
        by (simp add: stream_loop.simps)
      with Break st show ?thesis
        using stream_body_events[of L w r l evs r1 l1 evs'] by simp
    next
      case (Continue st)
      obtain r1 l1 e1 where st: "st = (r1, l1, e1)" by (cases st)
      from "1.prems" True Continue st
      have "stream_loop L w maxTokens (r1, n + 1, l1, e1) = (r', n', l', evs')"
        by (simp add: stream_loop.simps)
      from "1.hyps"[OF True Continue[unfolded st] refl refl this]
      obtain ts where ts: "evs' = e1 @ map OnToken ts" by blast
      from Continue st obtain ts0 where "e1 = evs @ map OnToken ts0"
        using stream_body_events[of L w r l evs r1 l1 e1] by auto
      with ts have "evs' = evs @ map OnToken (ts0 @ ts)" by simp
      then show ?thesis by blast
    qed
  qed
qed

lemma stream_body_Continue_generate:
  "stream_body L w (r, l, evs) = Continue (r', l', evs') \<Longrightarrow>
   generate_body L w (r, l) = Continue (r', l')"
  by (auto simp: stream_body_def generate_body_def Let_def split: prod.splits if_splits)

lemma stream_steps_generate:
  "stream_steps L w k (r, l, evs) = Some (r', l', evs') \<Longrightarrow>
   generate_steps L w k (r, l) = Some (r', l')"
proof (induction k arbitrary: r l evs)
  case 0
  then show ?case by simp
next
  case (Suc k)
  from Suc.prems obtain r1 l1 e1 where
    b: "stream_body L w (r, l, evs) = Continue (r1, l1, e1)" and
    s: "stream_steps L w k (r1, l1, e1) = Some (r', l', evs')"
    by (auto split: loop_step.splits)
  from stream_body_Continue_generate[OF b] Suc.IH[OF s]
  show ?case by simp
qed

lemma stream_steps_events:
  "stream_steps L w k (r, l, evs) = Some (r', l', evs') \<Longrightarrow>
   \<exists>toks. evs' = evs @ map OnToken toks"
proof (induction k arbitrary: r l evs)
  case 0
  then have "evs' = evs @ map OnToken []" by simp
  then show ?case by blast
next
  case (Suc k)
  from Suc.prems obtain r1 l1 e1 where
    b: "stream_body L w (r, l, evs) = Continue (r1, l1, e1)" and
    s: "stream_steps L w k (r1, l1, e1) = Some (r', l', evs')"
    by (auto split: loop_step.splits)
  from stream_body_events[of L w r l evs r1 l1 e1] b
  obtain ts0 where "e1 = evs @ map OnToken ts0" by auto
  moreover from Suc.IH[OF s] obtain ts where "evs' = e1 @ map OnToken ts" by blast
  ultimately have "evs' = evs @ map OnToken (ts0 @ ts)" by simp
  then show ?case by blast
qed

lemma generate_loop_steps:
  "generate_steps L w k (r, l) = Some (r', l') \<Longrightarrow> n + int k \<le> maxTokens \<Longrightarrow>
   generate_loop L w maxTokens (r, n, l) = generate_loop L w maxTokens (r', n + int k, l')"
proof (induction k arbitrary: r l n)
  case 0
  then show ?case by simp
next
  case (Suc k)
  from Suc.prems(1) obtain r1 l1 where
    b: "generate_body L w (r, l) = Continue (r1, l1)" and
    s: "generate_steps L w k (r1, l1) = Some (r', l')"
    by (auto split: loop_step.splits)
  from Suc.prems(2) have n: "n < maxTokens" and n1: "(n + 1) + int k \<le> maxTokens"
    by simp_all
  have "generate_loop L w maxTokens (r, n, l) = generate_loop L w maxTokens (r1, n + 1, l1)"
    using n b by (simp add: generate_loop.simps)
  also have "\<dots> = generate_loop L w maxTokens (r', (n + 1) + int k, l')"
    by (rule Suc.IH[OF s n1])
  finally show ?case by (simp add: add.commute add.left_commute)
qed

lemma stream_loop_steps:
  "stream_steps L w k (r, l, evs) = Some (r', l', evs') \<Longrightarrow> n + int k \<le> maxTokens \<Longrightarrow>
   stream_loop L w maxTokens (r, n, l, evs)
     = stream_loop L w maxTokens (r', n + int k, l', evs')"
proof (induction k arbitrary: r l evs n)
  case 0
  then show ?case by simp
next
  case (Suc k)
  from Suc.prems(1) obtain r1 l1 e1 where
    b: "stream_body L w (r, l, evs) = Continue (r1, l1, e1)" and
    s: "stream_steps L w k (r1, l1, e1) = Some (r', l', evs')"
    by (auto split: loop_step.splits)
  from Suc.prems(2) have n: "n < maxTokens" and n1: "(n + 1) + int k \<le> maxTokens"
    by simp_all
  have "stream_loop L w maxTokens (r, n, l, evs)
          = stream_loop L w maxTokens (r1, n + 1, l1, e1)"
    using n b by (simp add: stream_loop.simps)
  also have "\<dots> = stream_loop L w maxTokens (r', (n + 1) + int k, l', evs')"
    by (rule Suc.IH[OF s n1])
  finally show ?case by (simp add: add.commute add.left_commute)
qed


section \<open>The events of a streaming call\<close>

lemma generateStream_null_handle:
  "generateStream F L s cb 0 prompt maxTokens temperature topP topK l0 = Inr ([], l0)"
  by (simp add: generateStream_def)

lemma generateStream_unresolved:
  "\<not> callbacks_resolved cb \<Longrightarrow>
   generateStream F L s cb h prompt maxTokens temperature topP topK l0 = Inr ([], l0)"
  by (auto simp: generateStream_def callbacks_resolved_def)

lemma generateStream_resolved:
  assumes "h \<noteq> 0" and "callbacks_resolved cb"
      and "generateStream F L s cb h prompt maxTokens temperature topP topK l0 = Inr (evs, l')"
  shows "\<exists>toks fin. evs = map OnToken toks @ [fin]
                  \<and> (fin = OnComplete \<or> (\<exists>msg. fin = OnError msg))"
proof -
  from assms obtain w where w: "deref_gen s h = Inr w"
    by (auto simp: generateStream_def callbacks_resolved_def split: sum.splits)
  have c: "\<not> (\<not> has_onToken cb \<or> \<not> has_onComplete cb \<or> \<not> has_onError cb)"
    using assms(2) by (simp add: callbacks_resolved_def)
  show ?thesis
  proof (cases "prepare_prompt F L w prompt temperature topP topK l0")
    case Tokenize_failed
    with assms(1,3) w c have "evs = map OnToken [] @ [OnError ''Failed to tokenize prompt'']"
      by (simp add: generateStream_def)
    then show ?thesis by blast
  next
    case (Prompt_decode_failed x)
    with assms(1,3) w c have "evs = map OnToken [] @ [OnError ''Failed to decode prompt'']"
      by (simp add: generateStream_def)
    then show ?thesis by blast
  next
    case (Ready l3)
    obtain r k l4 e where lp: "stream_loop L w maxTokens ('''', 0, l3, []) = (r, k, l4, e)"
      by (cases "stream_loop L w maxTokens ('''', 0, l3, [])")
    from stream_loop_events[OF lp] obtain toks where "e = map OnToken toks" by auto
    moreover from assms(1,3) w c Ready lp have "evs = e @ [OnComplete]"
      by (simp add: generateStream_def)
    ultimately show ?thesis by blast
  qed
qed

lemma prepare_prompt_cases:
  assumes "llama_tokenize L (w_model w) prompt (length prompt + 256) = (n_tokens, buf)"
  shows "n_tokens < 0 \<longrightarrow>
           prepare_prompt F L w prompt temperature topP topK l0 = Tokenize_failed"
    and "0 \<le> n_tokens \<longrightarrow>
           (\<exists>rc l3. llama_decode L (w_ctx w) (take (nat n_tokens) buf)
                       (llama_memory_clear L (w_ctx w)
                          (sampler_init L (sampler_chain F L topK topP temperature) l0))
                     = (rc, l3)
              \<and> (rc \<noteq> 0 \<longrightarrow> prepare_prompt F L w prompt temperature topP topK l0
                                 = Prompt_decode_failed (sampler_free L l3))
              \<and> (rc = 0 \<longrightarrow> prepare_prompt F L w prompt temperature topP topK l0 = Ready l3))"
  using assms by (auto simp: prepare_prompt_def Let_def split: prod.splits)

lemma generateStream_terminal:
  assumes "h \<noteq> 0" and "callbacks_resolved cb"
      and "generateStream F L s cb h prompt maxTokens temperature topP topK l0 = Inr (evs, l')"
  shows "\<exists>w n_tokens buf.
           deref_gen s h = Inr w
           \<and> llama_tokenize L (w_model w) prompt (length prompt + 256) = (n_tokens, buf)
           \<and> (n_tokens < 0 \<longrightarrow> evs = [OnError ''Failed to tokenize prompt''])
           \<and> (0 \<le> n_tokens \<longrightarrow>
                (\<exists>rc l3. llama_decode L (w_ctx w) (take (nat n_tokens) buf)
                            (llama_memory_clear L (w_ctx w)
                               (sampler_init L (sampler_chain F L topK topP temperature) l0))
                          = (rc, l3)
                   \<and> (rc \<noteq> 0 \<longrightarrow> evs = [OnError ''Failed to decode prompt''])
                   \<and> (rc = 0 \<longrightarrow> (\<exists>toks. evs = map OnToken toks @ [OnComplete]))))"
proof -
  from assms obtain w where w: "deref_gen s h = Inr w"
    by (auto simp: generateStream_def callbacks_resolved_def split: sum.splits)
  have c: "\<not> (\<not> has_onToken cb \<or> \<not> has_onComplete cb \<or> \<not> has_onError cb)"
    using assms(2) by (simp add: callbacks_resolved_def)
  obtain n_tokens buf where
    t: "llama_tokenize L (w_model w) prompt (length prompt + 256) = (n_tokens, buf)"
    by (cases "llama_tokenize L (w_model w) prompt (length prompt + 256)")
  note pc = prepare_prompt_cases[OF t, where F = F and temperature = temperature
    and topP = topP and topK = topK and ?l0.0 = l0]
  have neg: "n_tokens < 0 \<longrightarrow> evs = [OnError ''Failed to tokenize prompt'']"
  proof
    assume "n_tokens < 0"
    with pc(1) have "prepare_prompt F L w prompt temperature topP topK l0 = Tokenize_failed"
      by simp
    with assms(1,3) w c show "evs = [OnError ''Failed to tokenize prompt'']"
      by (simp add: generateStream_def)
  qed
  have pos: "0 \<le> n_tokens \<longrightarrow>
                (\<exists>rc l3. llama_decode L (w_ctx w) (take (nat n_tokens) buf)
                            (llama_memory_clear L (w_ctx w)
                               (sampler_init L (sampler_chain F L topK topP temperature) l0))
                          = (rc, l3)
                   \<and> (rc \<noteq> 0 \<longrightarrow> evs = [OnError ''Failed to decode prompt''])
                   \<and> (rc = 0 \<longrightarrow> (\<exists>toks. evs = map OnToken toks @ [OnComplete])))"
  proof
    assume "0 \<le> n_tokens"
    with pc(2) obtain rc l3 where
      d: "llama_decode L (w_ctx w) (take (nat n_tokens) buf)
            (llama_memory_clear L (w_ctx w)
               (sampler_init L (sampler_chain F L topK topP temperature) l0)) = (rc, l3)" and
      f: "rc \<noteq> 0 \<longrightarrow> prepare_prompt F L w prompt temperature topP topK l0
                          = Prompt_decode_failed (sampler_free L l3)" and
      r: "rc = 0 \<longrightarrow> prepare_prompt F L w prompt temperature topP topK l0 = Ready l3"
      by blast
    have e1: "rc \<noteq> 0 \<longrightarrow> evs = [OnError ''Failed to decode prompt'']"
      using f assms(1,3) w c by (auto simp: generateStream_def)
    have e2: "rc = 0 \<longrightarrow> (\<exists>toks. evs = map OnToken toks @ [OnComplete])"
    proof
      assume "rc = 0"
      with r have rd: "prepare_prompt F L w prompt temperature topP topK l0 = Ready l3"
        by simp
      obtain r k l4 e where lp: "stream_loop L w maxTokens ('''', 0, l3, []) = (r, k, l4, e)"
        by (cases "stream_loop L w maxTokens ('''', 0, l3, [])")
      from stream_loop_events[OF lp] obtain toks where "e = map OnToken toks" by auto
      moreover from assms(1,3) w c rd lp have "evs = e @ [OnComplete]"
        by (simp add: generateStream_def)
      ultimately show "\<exists>toks. evs = map OnToken toks @ [OnComplete]" by blast
    qed
    from d e1 e2 show "\<exists>rc l3. llama_decode L (w_ctx w) (take (nat n_tokens) buf)
                            (llama_memory_clear L (w_ctx w)
                               (sampler_init L (sampler_chain F L topK topP temperature) l0))
                          = (rc, l3)
                   \<and> (rc \<noteq> 0 \<longrightarrow> evs = [OnError ''Failed to decode prompt''])
                   \<and> (rc = 0 \<longrightarrow> (\<exists>toks. evs = map OnToken toks @ [OnComplete]))"
      by blast
  qed
  from w t neg pos show ?thesis by blast
qed

text \<open>
  C1, as the code has it. For a call of \<^verbatim>\<open>generateStream\<close> with a nonzero handle that
  returns: if the three callback methods are resolved, the sink receives zero or more
  \<^verbatim>\<open>onToken\<close> events followed by exactly one terminal event, \<^verbatim>\<open>onComplete\<close> or \<^verbatim>\<open>onError\<close>.
  The terminal event is \<^verbatim>\<open>onError\<close> with \<open>''Failed to tokenize prompt''\<close>, and nothing before
  it, when the tokeniser returns a negative count; it is \<^verbatim>\<open>onError\<close> with
  \<open>''Failed to decode prompt''\<close>, and nothing before it, when the decode of the prompt
  fails; it is \<^verbatim>\<open>onComplete\<close> otherwise. If a callback method cannot be resolved, the
  sink receives no event at all.
\<close>

theorem stream_events_shape:
  assumes "h \<noteq> 0"
      and "generateStream F L s cb h prompt maxTokens temperature topP topK l0 = Inr (evs, l')"
  shows "(callbacks_resolved cb \<longrightarrow>
            (\<exists>toks fin. evs = map OnToken toks @ [fin]
                      \<and> (fin = OnComplete \<or> (\<exists>msg. fin = OnError msg)))
            \<and> (\<exists>w n_tokens buf.
                  deref_gen s h = Inr w
                  \<and> llama_tokenize L (w_model w) prompt (length prompt + 256) = (n_tokens, buf)
                  \<and> (n_tokens < 0 \<longrightarrow> evs = [OnError ''Failed to tokenize prompt''])
                  \<and> (0 \<le> n_tokens \<longrightarrow>
                       (\<exists>rc l3. llama_decode L (w_ctx w) (take (nat n_tokens) buf)
                                   (llama_memory_clear L (w_ctx w)
                                      (sampler_init L
                                         (sampler_chain F L topK topP temperature) l0))
                                 = (rc, l3)
                          \<and> (rc \<noteq> 0 \<longrightarrow> evs = [OnError ''Failed to decode prompt''])
                          \<and> (rc = 0 \<longrightarrow>
                                (\<exists>toks. evs = map OnToken toks @ [OnComplete]))))))
         \<and> (\<not> callbacks_resolved cb \<longrightarrow> evs = [])"
proof (intro conjI impI)
  assume r: "callbacks_resolved cb"
  from assms(1) r assms(2)
  show "\<exists>toks fin. evs = map OnToken toks @ [fin]
                      \<and> (fin = OnComplete \<or> (\<exists>msg. fin = OnError msg))"
    by (rule generateStream_resolved)
  from assms(1) r assms(2)
  show "\<exists>w n_tokens buf.
                  deref_gen s h = Inr w
                  \<and> llama_tokenize L (w_model w) prompt (length prompt + 256) = (n_tokens, buf)
                  \<and> (n_tokens < 0 \<longrightarrow> evs = [OnError ''Failed to tokenize prompt''])
                  \<and> (0 \<le> n_tokens \<longrightarrow>
                       (\<exists>rc l3. llama_decode L (w_ctx w) (take (nat n_tokens) buf)
                                   (llama_memory_clear L (w_ctx w)
                                      (sampler_init L
                                         (sampler_chain F L topK topP temperature) l0))
                                 = (rc, l3)
                          \<and> (rc \<noteq> 0 \<longrightarrow> evs = [OnError ''Failed to decode prompt''])
                          \<and> (rc = 0 \<longrightarrow>
                                (\<exists>toks. evs = map OnToken toks @ [OnComplete]))))"
    by (rule generateStream_terminal)
next
  assume "\<not> callbacks_resolved cb"
  then have "generateStream F L s cb h prompt maxTokens temperature topP topK l0 = Inr ([], l0)"
    by (rule generateStream_unresolved)
  with assms(2) show "evs = []"
    by simp
qed

text \<open>
  Instances on the small library: a generation that ends at the stop marker, a prompt the
  tokeniser rejects, a prompt whose decode fails, and a callback object without
  \<^verbatim>\<open>onError\<close>.
\<close>

theorem stream_events_shape_witness:
  "generateStream toy_float toy_api gen_session cb_full 1 ''q'' 10 7 9 40 [1, 2, 3, 1]
     = Inr ([OnToken ''Hi'', OnToken ''<|im_'', OnComplete], [1])
   \<and> llama_tokenize toy_api (w_model gen_wrapper) ''q'' (length ''q'' + 256) = (1, [113])
   \<and> llama_decode toy_api (w_ctx gen_wrapper) [113] [1, 2, 3, 1] = (0, [1, 2, 3, 1])
   \<and> generateStream toy_float toy_api gen_session cb_full 1 ''?'' 10 7 9 40 [1, 2, 3, 1]
     = Inr ([OnError ''Failed to tokenize prompt''], [1, 2, 3, 1])
   \<and> llama_tokenize toy_api (w_model gen_wrapper) ''?'' (length ''?'' + 256) = (- 1, [])
   \<and> generateStream toy_float toy_api gen_session cb_full 1 [CHR 0x0D] 10 7 9 40 [1, 2, 3, 1]
     = Inr ([OnError ''Failed to decode prompt''], [1, 2, 3, 1])
   \<and> llama_tokenize toy_api (w_model gen_wrapper) [CHR 0x0D] (length [CHR 0x0D] + 256)
     = (1, [13])
   \<and> llama_decode toy_api (w_ctx gen_wrapper) [13] [1, 2, 3, 1] = (1, [1, 2, 3, 1])
   \<and> callbacks_resolved cb_full \<and> \<not> callbacks_resolved cb_no_onError
   \<and> fst (projr (generateStream toy_float toy_api gen_session cb_no_onError 1 ''q'' 10 7 9 40
                    [1, 2, 3, 1])) = []"
proof -
  have l: "stream_loop toy_api gen_wrapper 10 ('''', 0, [1, 2, 3, 1], [])
             = (''Hi<|im_end|>!'', 2, [1], [OnToken ''Hi'', OnToken ''<|im_''])"
    by (simp add: stream_loop.simps stream_body_def toy_simps Let_def im_end_def c_str_def)
  have r: "callbacks_resolved cb_full" and n: "\<not> callbacks_resolved cb_no_onError"
    by (simp_all add: callbacks_resolved_def cb_full_def cb_no_onError_def)
  have a: "generateStream toy_float toy_api gen_session cb_full 1 ''q'' 10 7 9 40 [1, 2, 3, 1]
             = Inr ([OnToken ''Hi'', OnToken ''<|im_'', OnComplete], [1])"
    by (simp add: generateStream_def cb_full_def deref_gen_session toy_prepare l toy_simps)
  have c: "generateStream toy_float toy_api gen_session cb_no_onError 1 ''q'' 10 7 9 40
             [1, 2, 3, 1] = Inr ([], [1, 2, 3, 1])"
    by (simp add: generateStream_def cb_no_onError_def)
  have t1: "llama_tokenize toy_api (w_model gen_wrapper) ''q'' (length ''q'' + 256) = (1, [113])"
    and t2: "llama_tokenize toy_api (w_model gen_wrapper) ''?'' (length ''?'' + 256) = (- 1, [])"
    and t3: "llama_tokenize toy_api (w_model gen_wrapper) [CHR 0x0D] (length [CHR 0x0D] + 256)
               = (1, [13])"
    by (simp_all add: toy_simps)
  have d1: "llama_decode toy_api (w_ctx gen_wrapper) [113] [1, 2, 3, 1] = (0, [1, 2, 3, 1])"
    and d3: "llama_decode toy_api (w_ctx gen_wrapper) [13] [1, 2, 3, 1] = (1, [1, 2, 3, 1])"
    by (simp_all add: toy_simps)
  obtain e2 l2 where b0: "generateStream toy_float toy_api gen_session cb_full 1 ''?'' 10 7 9 40
             [1, 2, 3, 1] = Inr (e2, l2)"
    by (simp add: generateStream_def cb_full_def deref_gen_session prepare_prompt_def
          toy_simps)
  obtain e3 l3 where b1: "generateStream toy_float toy_api gen_session cb_full 1 [CHR 0x0D] 10
             7 9 40 [1, 2, 3, 1] = Inr (e3, l3)"
    by (simp add: generateStream_def cb_full_def deref_gen_session prepare_prompt_def
          toy_simps Let_def)
  have h: "(1::nat) \<noteq> 0" by simp
  have dg: "deref_gen gen_session 1 = Inr gen_wrapper"
    using deref_gen_session by simp
  from stream_events_shape[OF h b0] r dg t2
  have "e2 = [OnError ''Failed to tokenize prompt'']" by auto
  moreover from b0 have "l2 = [1, 2, 3, 1]"
    by (simp add: generateStream_def cb_full_def deref_gen_session prepare_prompt_def
          toy_simps)
  moreover from stream_events_shape[OF h b1] r dg t3 d3
  have "e3 = [OnError ''Failed to decode prompt'']"
    by (auto simp: toy_simps)
  moreover from b1 have "l3 = [1, 2, 3, 1]"
    by (simp add: generateStream_def cb_full_def deref_gen_session prepare_prompt_def
          toy_simps Let_def)
  ultimately show ?thesis
    using a b0 b1 c r n t1 t2 t3 d1 d3 by simp
qed

text \<open>
  The claim as stated fails: with a callback object whose \<^verbatim>\<open>onError\<close> cannot be resolved,
  the call returns without any event, so the sink gets no terminal event and no
  \<^verbatim>\<open>onError\<close>.
\<close>

theorem stream_no_terminal_event_counterexample:
  "generateStream toy_float toy_api gen_session cb_no_onError 1 ''q'' 10 7 9 40 [1, 0]
     = Inr ([], [1, 0])"
  by (simp add: generateStream_def cb_no_onError_def)

section \<open>Releasing a handle twice\<close>

text \<open>
  C2, as the code has it. With handle \<open>0\<close> both release functions return at once and
  change nothing. On the nonzero handle of a live session of their kind they release the
  context, then the model, delete the wrapper (and \<^verbatim>\<open>freeModel\<close> then tears the backend
  down), after which the handle no longer designates a wrapper. The code keeps no record
  of released handles; safety of a second call on the same handle is not provided.
\<close>

theorem free_null_noop_and_live_release:
  "freeModel 0 s = Inr s \<and> freeEmbeddingModel 0 s = Inr s
   \<and> (h \<noteq> 0 \<and> deref_gen s h = Inr w \<and> w_ctx w \<noteq> 0 \<and> w_model w \<noteq> 0 \<longrightarrow>
        (\<exists>s'. freeModel h s = Inr s'
           \<and> new_calls s s' = [Free_ctx (w_ctx w), Free_model (w_model w), Backend_free]
           \<and> map_of (heap s') h = None))
   \<and> (h \<noteq> 0 \<and> deref_emb s h = Inr e \<and> e_ctx e \<noteq> 0 \<and> e_model e \<noteq> 0 \<longrightarrow>
        (\<exists>s'. freeEmbeddingModel h s = Inr s'
           \<and> new_calls s s' = [Free_ctx (e_ctx e), Free_model (e_model e)]
           \<and> map_of (heap s') h = None))"
proof (intro conjI impI)
  show "freeModel 0 s = Inr s" by (simp add: freeModel_def)
  show "freeEmbeddingModel 0 s = Inr s" by (simp add: freeEmbeddingModel_def)
next
  assume a: "h \<noteq> 0 \<and> deref_gen s h = Inr w \<and> w_ctx w \<noteq> 0 \<and> w_model w \<noteq> 0"
  then obtain s' where "freeModel h s = Inr s'"
    "calls s' = calls s @ [Free_ctx (w_ctx w), Free_model (w_model w), Backend_free]"
    "heap s' = filter (\<lambda>(b, _). b \<noteq> h) (heap s)"
    using freeModel_live[of h s w] by auto
  then show "\<exists>s'. freeModel h s = Inr s'
           \<and> new_calls s s' = [Free_ctx (w_ctx w), Free_model (w_model w), Backend_free]
           \<and> map_of (heap s') h = None"
    by (simp add: map_of_filter_same)
next
  assume a: "h \<noteq> 0 \<and> deref_emb s h = Inr e \<and> e_ctx e \<noteq> 0 \<and> e_model e \<noteq> 0"
  then obtain s' where "freeEmbeddingModel h s = Inr s'"
    "calls s' = calls s @ [Free_ctx (e_ctx e), Free_model (e_model e)]"
    "heap s' = filter (\<lambda>(b, _). b \<noteq> h) (heap s)"
    using freeEmbeddingModel_live[of h s e] by auto
  then show "\<exists>s'. freeEmbeddingModel h s = Inr s'
           \<and> new_calls s s' = [Free_ctx (e_ctx e), Free_model (e_model e)]
           \<and> map_of (heap s') h = None"
    by (simp add: map_of_filter_same)
qed

text \<open>An instance: releasing the only generation session of a process, and the null handle.\<close>

theorem free_null_noop_and_live_release_witness:
  "freeModel 0 gen_session = Inr gen_session
   \<and> freeEmbeddingModel 0 gen_session = Inr gen_session
   \<and> deref_gen gen_session 1 = Inr \<lparr>w_model = 1, w_ctx = 1, using_gpu = False, gpu_layers = 0\<rparr>
   \<and> (\<exists>s'. freeModel 1 gen_session = Inr s'
         \<and> new_calls gen_session s' = [Free_ctx 1, Free_model 1, Backend_free]
         \<and> map_of (heap s') 1 = None)
   \<and> deref_emb emb_session 1 = Inr \<lparr>e_model = 1, e_ctx = 1, n_embd = 384\<rparr>
   \<and> (\<exists>s'. freeEmbeddingModel 1 emb_session = Inr s'
         \<and> new_calls emb_session s' = [Free_ctx 1, Free_model 1]
         \<and> map_of (heap s') 1 = None)"
proof -
  have g: "deref_gen gen_session 1
             = Inr \<lparr>w_model = 1, w_ctx = 1, using_gpu = False, gpu_layers = 0\<rparr>"
    by (simp add: gen_session_eq deref_gen_def)
  have e: "deref_emb emb_session 1 = Inr \<lparr>e_model = 1, e_ctx = 1, n_embd = 384\<rparr>"
    by (simp add: emb_session_eq deref_emb_def)
  show ?thesis
    using free_null_noop_and_live_release[of gen_session 1
            "\<lparr>w_model = 1, w_ctx = 1, using_gpu = False, gpu_layers = 0\<rparr>"
            "\<lparr>e_model = 1, e_ctx = 1, n_embd = 384\<rparr>"]
          free_null_noop_and_live_release[of emb_session 1
            "\<lparr>w_model = 1, w_ctx = 1, using_gpu = False, gpu_layers = 0\<rparr>"
            "\<lparr>e_model = 1, e_ctx = 1, n_embd = 384\<rparr>"]
          g e
    by simp
qed

text \<open>
  The claim as stated fails: the second of two successive calls on the same handle
  dereferences a wrapper that the first call deleted. This holds for both kinds of session.
\<close>

theorem free_twice_counterexample:
  "freeModel 1 gen_session = Inr gen_session_freed
   \<and> freeModel 1 gen_session_freed = Inl Invalid_pointer
   \<and> freeEmbeddingModel 1 emb_session = Inr emb_session_freed
   \<and> freeEmbeddingModel 1 emb_session_freed = Inl Invalid_pointer"
  by (simp add: gen_session_eq emb_session_eq gen_session_freed_def emb_session_freed_def
        freeModel_def freeEmbeddingModel_def deref_gen_def deref_emb_def lib_defs Let_def)

section \<open>Backend initialisation\<close>

lemma initModel_inits: "backend_inits (snd (initModel E p c t s)) = Suc (backend_inits s)"
  by (simp add: initModel_def backend_inits_def lib_defs Let_def split: prod.splits)

lemma initModelWithGpu_inits:
  "backend_inits (snd (initModelWithGpu E p c t u g s)) = Suc (backend_inits s)"
  by (simp add: initModelWithGpu_def backend_inits_def lib_defs Let_def split: prod.splits)

lemma initEmbeddingModel_inits:
  "backend_inits (snd (initEmbeddingModel E p c t s)) =
     (if backend_initialized s then backend_inits s else Suc (backend_inits s))"
  by (simp add: initEmbeddingModel_def backend_inits_def lib_defs Let_def split: prod.splits)

lemma initModel_flag: "backend_initialized (snd (initModel E p c t s)) = backend_initialized s"
  by (simp add: initModel_def lib_defs Let_def split: prod.splits)

lemma initModelWithGpu_flag:
  "backend_initialized (snd (initModelWithGpu E p c t u g s)) = backend_initialized s"
  by (simp add: initModelWithGpu_def lib_defs Let_def split: prod.splits)

lemma initEmbeddingModel_flag:
  "backend_initialized (snd (initEmbeddingModel E p c t s))"
  by (simp add: initEmbeddingModel_def lib_defs Let_def split: prod.splits)

text \<open>
  What the code does on any sequence of creation calls: every \<^verbatim>\<open>initModel\<close> and every
  \<^verbatim>\<open>initModelWithGpu\<close> runs the backend setup, and the calls of \<^verbatim>\<open>initEmbeddingModel\<close>
  run it once between them, if the flag was not set before.
\<close>

lemma backend_inits_of_sequence:
  "backend_inits (fold (run_create E) cs s) =
     backend_inits s + length (filter (\<lambda>c. \<not> is_embedding_call c) cs)
     + (if \<not> backend_initialized s \<and> (\<exists>c \<in> set cs. is_embedding_call c) then 1 else 0)"
proof (induction cs arbitrary: s)
  case Nil
  show ?case by simp
next
  case (Cons c cs)
  show ?case
  proof (cases c)
    case (Init_model p n t)
    then show ?thesis
      by (simp add: Cons.IH initModel_inits initModel_flag)
  next
    case (Init_model_gpu p n t u g)
    then show ?thesis
      by (simp add: Cons.IH initModelWithGpu_inits initModelWithGpu_flag)
  next
    case (Init_embedding p n t)
    then show ?thesis
      by (simp add: Cons.IH initEmbeddingModel_inits initEmbeddingModel_flag)
  qed
qed

text \<open>
  C3. The claim is that the backend setup runs at most once per process, on the first
  session-creation call only. The code guards the setup in \<^verbatim>\<open>initEmbeddingModel\<close> alone,
  with a flag local to that function; \<^verbatim>\<open>initModel\<close> and \<^verbatim>\<open>initModelWithGpu\<close> call
  \<^verbatim>\<open>llama_backend_init\<close> every time. Starting from a fresh process, two calls of
  \<^verbatim>\<open>initModel\<close>, two calls of \<^verbatim>\<open>initModelWithGpu\<close>, and \<^verbatim>\<open>initModel\<close> followed by
  \<^verbatim>\<open>initEmbeddingModel\<close> each run the backend setup twice, whatever the library answers.
\<close>

theorem backend_init_not_once:
  "backend_inits (snd (initModel E p2 c2 t2 (snd (initModel E p1 c1 t1 world0)))) = 2
   \<and> backend_inits (snd (initModelWithGpu E p2 c2 t2 u2 g2
                          (snd (initModelWithGpu E p1 c1 t1 u1 g1 world0)))) = 2
   \<and> backend_inits (snd (initEmbeddingModel E p2 c2 t2 (snd (initModel E p1 c1 t1 world0)))) = 2"
  by (simp add: initModel_inits initModelWithGpu_inits initEmbeddingModel_inits initModel_flag)
     (simp add: backend_inits_def world0_def)



section \<open>The text returned never holds the stop marker\<close>

lemma generate_loop_stops_at_marker:
  assumes "n < maxTokens"
      and "llama_sampler_sample L (w_ctx w) l = (tok, l1)"
      and "\<not> llama_vocab_is_eog L (w_model w) tok"
      and "llama_token_to_piece L (w_model w) tok 256 = (np, piece)"
      and "0 < np"
      and "sublist im_end (result @ take (nat np) piece)"
  shows "\<exists>pos. generate_loop L w maxTokens (result, n, l)
                  = (take pos (result @ take (nat np) piece), n, l1)
              \<and> prefix im_end (drop pos (result @ take (nat np) piece))
              \<and> \<not> sublist im_end (take pos (result @ take (nat np) piece))"
proof -
  let ?acc = "result @ take (nat np) piece"
  from assms(6) obtain pos where p: "find_str ?acc im_end = Some pos"
    using find_str_Some_iff_sublist by blast
  have b: "generate_body L w (result, l) = Break (take pos ?acc, l1)"
    using assms(2-5) p by (simp add: generate_body_def Let_def del: take_append)
  have "generate_loop L w maxTokens (result, n, l) = (take pos ?acc, n, l1)"
    using assms(1) b by (simp add: generate_loop.simps del: take_append)
  with find_str_first[OF p im_end_nonempty] show ?thesis by blast
qed

text \<open>
  C4. The text \<^verbatim>\<open>generate\<close> returns never contains \<^verbatim>\<open><|im_end|>\<close>. And in an iteration of
  its loop where the accumulated result comes to contain the marker after the append,
  the loop ends there (no further decode, \<^verbatim>\<open>n_generated\<close> unchanged) with the result cut at
  \<open>pos\<close>, where the marker starts and before which there is no marker.
\<close>

theorem generate_never_returns_stop_marker:
  "(generate F L s h prompt maxTokens temperature topP topK l0 = Inr (out, l')
      \<longrightarrow> \<not> sublist im_end out)
   \<and> (n < maxTokens \<and> llama_sampler_sample L (w_ctx w) l = (tok, l1)
        \<and> \<not> llama_vocab_is_eog L (w_model w) tok
        \<and> llama_token_to_piece L (w_model w) tok 256 = (np, piece) \<and> 0 < np
        \<and> sublist im_end (result @ take (nat np) piece)
      \<longrightarrow> (\<exists>pos. generate_loop L w maxTokens (result, n, l)
                     = (take pos (result @ take (nat np) piece), n, l1)
                 \<and> prefix im_end (drop pos (result @ take (nat np) piece))
                 \<and> \<not> sublist im_end (take pos (result @ take (nat np) piece))))"
proof (intro conjI impI)
  assume g: "generate F L s h prompt maxTokens temperature topP topK l0 = Inr (out, l')"
  have e: "\<not> sublist im_end ''''" by (simp add: im_end_def)
  show "\<not> sublist im_end out"
  proof (cases "h = 0")
    case True
    with g e show ?thesis by (simp add: generate_def)
  next
    case False
    with g obtain wr where wr: "deref_gen s h = Inr wr"
      by (auto simp: generate_def split: sum.splits)
    show ?thesis
    proof (cases "prepare_prompt F L wr prompt temperature topP topK l0")
      case Tokenize_failed
      with g False wr e show ?thesis by (auto simp: generate_def)
    next
      case (Prompt_decode_failed x)
      with g False wr e show ?thesis by (auto simp: generate_def)
    next
      case (Ready l3)
      obtain r k l4 where lp: "generate_loop L wr maxTokens ('''', 0, l3) = (r, k, l4)"
        by (cases "generate_loop L wr maxTokens ('''', 0, l3)")
      from generate_loop_marker_free[OF e, of L wr maxTokens 0 l3] lp
      have "\<not> sublist im_end r" by simp
      then have "\<not> sublist im_end (c_str r)" by (rule not_sublist_c_str)
      with g False wr Ready lp show ?thesis by (auto simp: generate_def)
    qed
  qed
next
  assume a: "n < maxTokens \<and> llama_sampler_sample L (w_ctx w) l = (tok, l1)
        \<and> \<not> llama_vocab_is_eog L (w_model w) tok
        \<and> llama_token_to_piece L (w_model w) tok 256 = (np, piece) \<and> 0 < np
        \<and> sublist im_end (result @ take (nat np) piece)"
  then have a1: "n < maxTokens" and a2: "llama_sampler_sample L (w_ctx w) l = (tok, l1)"
    and a3: "\<not> llama_vocab_is_eog L (w_model w) tok"
    and a4: "llama_token_to_piece L (w_model w) tok 256 = (np, piece)" and a5: "0 < np"
    and a6: "sublist im_end (result @ take (nat np) piece)"
    by simp_all
  show "\<exists>pos. generate_loop L w maxTokens (result, n, l)
                     = (take pos (result @ take (nat np) piece), n, l1)
                 \<and> prefix im_end (drop pos (result @ take (nat np) piece))
                 \<and> \<not> sublist im_end (take pos (result @ take (nat np) piece))"
    by (rule generate_loop_stops_at_marker[OF a1 a2 a3 a4 a5 a6])
qed

text \<open>
  An instance on the small library: the sampler draws the pieces \<open>''Hi''\<close>, \<open>''<|im_''\<close>,
  \<open>''end|>!''\<close>; the third completes the marker and the call returns \<open>''Hi''\<close>.
\<close>

theorem generate_never_returns_stop_marker_witness:
  "generate toy_float toy_api gen_session 1 ''q'' 10 7 9 40 [1, 2, 3, 1] = Inr (''Hi'', [1])
   \<and> \<not> sublist im_end ''Hi''
   \<and> sublist im_end (''Hi<|im_'' @ ''end|>!'')
   \<and> generate_loop toy_api gen_wrapper 10 (''Hi<|im_'', 2, [3, 1]) = (''Hi'', 2, [1])"
proof -
  have l: "generate_loop toy_api gen_wrapper 10 ('''', 0, [1, 2, 3, 1]) = (''Hi'', 2, [1])"
    by (simp add: generate_loop.simps generate_body_def toy_simps Let_def im_end_def)
  have g: "generate toy_float toy_api gen_session 1 ''q'' 10 7 9 40 [1, 2, 3, 1]
             = Inr (''Hi'', [1])"
    by (simp add: generate_def deref_gen_session toy_prepare l c_str_def toy_simps)
  have m: "sublist im_end (''Hi<|im_'' @ ''end|>!'')"
    by (simp add: im_end_def sublist_Cons_right)
  have p: "(2::int) < 10 \<and> llama_sampler_sample toy_api (w_ctx gen_wrapper) [3, 1] = (3, [1])
        \<and> \<not> llama_vocab_is_eog toy_api (w_model gen_wrapper) 3
        \<and> llama_token_to_piece toy_api (w_model gen_wrapper) 3 256 = (6, ''end|>!'')
        \<and> (0::int) < 6
        \<and> sublist im_end (''Hi<|im_'' @ take (nat 6) ''end|>!'')"
    using m by (simp add: toy_simps)
  have l2: "generate_loop toy_api gen_wrapper 10 (''Hi<|im_'', 2, [3, 1]) = (''Hi'', 2, [1])"
    by (simp add: generate_loop.simps generate_body_def toy_simps Let_def im_end_def)
  from generate_never_returns_stop_marker[where F = toy_float and L = toy_api
         and s = gen_session and h = 1 and prompt = "''q''" and maxTokens = 10
         and temperature = 7 and topP = 9 and topK = 40 and ?l0.0 = "[1, 2, 3, 1]"
         and out = "''Hi''" and l' = "[1]" and n = 2 and w = gen_wrapper and l = "[3, 1]"
         and tok = 3 and ?l1.0 = "[1]" and np = 6 and piece = "''end|>!''"
         and result = "''Hi<|im_''"] g p
  have "\<not> sublist im_end ''Hi''" by blast
  with g m l2 show ?thesis by simp
qed

section \<open>A decode failure inside the loop\<close>

text \<open>
  C5. Take a call of \<^verbatim>\<open>generate\<close> or \<^verbatim>\<open>generateStream\<close> on a live session, with the
  callbacks resolved, whose prompt was tokenised and decoded. Suppose the loop reaches
  iteration \<open>k\<close> (before \<^verbatim>\<open>maxTokens\<close>) with the text \<open>acc\<close> accumulated and the events
  \<open>evs\<close> delivered, and in that iteration the sampled token is not an end of generation,
  its piece does not complete the stop marker, and the decode of the token fails. Then
  \<^verbatim>\<open>generate\<close> returns the text accumulated so far, that piece included, and signals
  nothing; \<^verbatim>\<open>generateStream\<close> delivers the events so far, the \<^verbatim>\<open>onToken\<close> of that piece,
  and then \<^verbatim>\<open>onComplete\<close>; all events before it are \<^verbatim>\<open>onToken\<close> events, none is
  \<^verbatim>\<open>onError\<close>.
\<close>

theorem decode_failure_ends_generation_silently:
  assumes "h \<noteq> 0" and "deref_gen s h = Inr w" and "callbacks_resolved cb"
      and "prepare_prompt F L w prompt temperature topP topK l0 = Ready l3"
      and "stream_steps L w k ('''', l3, []) = Some (acc, l, evs)"
      and "int k < maxTokens"
      and "llama_sampler_sample L (w_ctx w) l = (tok, l1)"
      and "\<not> llama_vocab_is_eog L (w_model w) tok"
      and "llama_token_to_piece L (w_model w) tok 256 = (np, piece)"
      and "acc' = (if 0 < np then acc @ take (nat np) piece else acc)"
      and "\<not> sublist im_end acc'"
      and "llama_decode L (w_ctx w) [tok] l1 = (rc, l2)"
      and "rc \<noteq> 0"
  shows "generate F L s h prompt maxTokens temperature topP topK l0
           = Inr (c_str acc', sampler_free L l2)
       \<and> generateStream F L s cb h prompt maxTokens temperature topP topK l0
           = Inr (evs @ (if 0 < np then [OnToken (c_str (take (nat np) piece))] else [])
                      @ [OnComplete], sampler_free L l2)
       \<and> (\<exists>toks. evs = map OnToken toks)"
proof -
  have nf: "find_str acc' im_end = None"
    using assms(11) by (simp add: find_str_None_iff)
  have c: "\<not> (\<not> has_onToken cb \<or> \<not> has_onComplete cb \<or> \<not> has_onError cb)"
    using assms(3) by (simp add: callbacks_resolved_def)
  have k: "0 + int k \<le> maxTokens" using assms(6) by simp
  have gb: "generate_body L w (acc, l) = Break (acc', l2)"
    using assms(7-10,12,13) nf by (simp add: generate_body_def Let_def)
  have sb: "stream_body L w (acc, l, evs)
              = Break (acc', l2, evs @ (if 0 < np then [OnToken (c_str (take (nat np) piece))]
                                        else []))"
    using assms(7-10,12,13) nf by (simp add: stream_body_def Let_def)
  have "generate_loop L w maxTokens ('''', 0, l3) = generate_loop L w maxTokens (acc, 0 + int k, l)"
    by (rule generate_loop_steps[OF stream_steps_generate[OF assms(5)] k])
  also have "\<dots> = (acc', int k, l2)"
    using assms(6) gb by (simp add: generate_loop.simps)
  finally have gl: "generate_loop L w maxTokens ('''', 0, l3) = (acc', int k, l2)" .
  have "stream_loop L w maxTokens ('''', 0, l3, [])
          = stream_loop L w maxTokens (acc, 0 + int k, l, evs)"
    by (rule stream_loop_steps[OF assms(5) k])
  also have "\<dots> = (acc', int k, l2,
                     evs @ (if 0 < np then [OnToken (c_str (take (nat np) piece))] else []))"
    using assms(6) sb by (simp add: stream_loop.simps)
  finally have sl: "stream_loop L w maxTokens ('''', 0, l3, [])
          = (acc', int k, l2,
             evs @ (if 0 < np then [OnToken (c_str (take (nat np) piece))] else []))" .
  have g: "generate F L s h prompt maxTokens temperature topP topK l0
             = Inr (c_str acc', sampler_free L l2)"
    using assms(1,2,4) gl by (simp add: generate_def)
  have st: "generateStream F L s cb h prompt maxTokens temperature topP topK l0
           = Inr (evs @ (if 0 < np then [OnToken (c_str (take (nat np) piece))] else [])
                      @ [OnComplete], sampler_free L l2)"
    using assms(1,2,4) c sl by (simp add: generateStream_def)
  from stream_steps_events[OF assms(5)] have "\<exists>toks. evs = map OnToken toks" by simp
  with g st show ?thesis by blast
qed

text \<open>
  An instance on the small library: the pieces \<open>''Hi''\<close>, \<open>''Hi''\<close> are generated, then
  token 13 with the piece \<open>''x''\<close> is drawn and its decode fails.
\<close>

theorem decode_failure_ends_generation_silently_witness:
  "stream_steps toy_api gen_wrapper 2 ('''', [1, 1, 13, 1], [])
     = Some (''HiHi'', [13, 1], [OnToken ''Hi'', OnToken ''Hi''])
   \<and> llama_decode toy_api (w_ctx gen_wrapper) [13] [1] = (1, [1])
   \<and> generate toy_float toy_api gen_session 1 ''q'' 10 7 9 40 [1, 1, 13, 1]
       = Inr (''HiHix'', [1])
   \<and> generateStream toy_float toy_api gen_session cb_full 1 ''q'' 10 7 9 40 [1, 1, 13, 1]
       = Inr ([OnToken ''Hi'', OnToken ''Hi'', OnToken ''x'', OnComplete], [1])"
proof -
  have h: "(1::nat) \<noteq> 0" by simp
  have d: "deref_gen gen_session 1 = Inr gen_wrapper"
    using deref_gen_session by simp
  have r: "callbacks_resolved cb_full"
    by (simp add: callbacks_resolved_def cb_full_def)
  have p: "prepare_prompt toy_float toy_api gen_wrapper ''q'' 7 9 40 [1, 1, 13, 1]
             = Ready [1, 1, 13, 1]"
    by (rule toy_prepare)
  have s: "stream_steps toy_api gen_wrapper 2 ('''', [1, 1, 13, 1], [])
             = Some (''HiHi'', [13, 1], [OnToken ''Hi'', OnToken ''Hi''])"
    by (simp add: numeral_2_eq_2 stream_body_def toy_simps Let_def im_end_def c_str_def)
  have k: "int 2 < 10" by simp
  have sa: "llama_sampler_sample toy_api (w_ctx gen_wrapper) [13, 1] = (13, [1])"
    by (simp add: toy_simps)
  have e: "\<not> llama_vocab_is_eog toy_api (w_model gen_wrapper) 13"
    by (simp add: toy_simps)
  have t: "llama_token_to_piece toy_api (w_model gen_wrapper) 13 256 = (1, ''x'')"
    by (simp add: toy_simps)
  have a: "''HiHix'' = (if 0 < (1::int) then ''HiHi'' @ take (nat 1) ''x'' else ''HiHi'')"
    by simp
  have m: "\<not> sublist im_end ''HiHix''"
    by (simp add: im_end_def sublist_Cons_right)
  have dc: "llama_decode toy_api (w_ctx gen_wrapper) [13] [1] = (1, [1])"
    by (simp add: toy_simps)
  have z: "(1::int) \<noteq> 0" by simp
  from decode_failure_ends_generation_silently[OF h d r p s k sa e t a m dc z] s dc
  show ?thesis by (simp add: toy_simps c_str_def)
qed

section \<open>The embedding returned\<close>

lemma length_l2_normalize: "length (l2_normalize F embd n) = n"
  by (simp add: l2_normalize_def Let_def)

lemma nth_l2_normalize:
  "i < n \<Longrightarrow>
   l2_normalize F embd n ! i =
     (if fgt F (fsqrt F (sum_squares F embd n)) (f_lit F 0 0)
      then fdiv F (embd i) (fsqrt F (sum_squares F embd n)) else embd i)"
  by (simp add: l2_normalize_def Let_def)

lemma getEmbedding_Some:
  assumes "getEmbedding F L J s h txt l0 = Inr (Some v, l')"
  shows "\<exists>w embd. h \<noteq> 0 \<and> deref_emb s h = Inr w \<and> 0 \<le> n_embd w
           \<and> (llama_get_embeddings_seq L (e_ctx w) 0 l' = Some embd
               \<or> llama_get_embeddings_seq L (e_ctx w) 0 l' = None
                 \<and> llama_get_embeddings L (e_ctx w) l' = Some embd)
           \<and> v = l2_normalize F embd (nat (n_embd w))"
  using assms
  by (auto simp: getEmbedding_def NewFloatArray_def Let_def
           split: if_splits sum.splits prod.splits option.splits)

text \<open>
  C6, as the code has it. When \<^verbatim>\<open>getEmbedding\<close> returns an array \<open>v\<close>, its length is the
  dimension that \<^verbatim>\<open>getEmbeddingDimension\<close> reports for the handle. Let \<open>embd\<close> be the pooled
  vector the library gave (that of sequence 0, or else that of the context) and \<open>norm\<close>
  the value the code computes: the square root of the sum of the squares of the
  components, accumulated from zero in index order, every operation in float arithmetic.
  If \<open>norm > 0\<close>, every component of \<open>v\<close> is the component of \<open>embd\<close> divided by \<open>norm\<close>;
  otherwise \<open>v\<close> is \<open>embd\<close> unchanged and nothing is divided, in particular when \<open>norm\<close>
  is zero. This holds for every float arithmetic.
\<close>

theorem embedding_length_and_normalisation:
  assumes "getEmbedding F L J s h txt l0 = Inr (Some v, l')"
  shows "\<exists>w embd norm.
           deref_emb s h = Inr w
           \<and> getEmbeddingDimension h s = Inr (int (length v))
           \<and> (llama_get_embeddings_seq L (e_ctx w) 0 l' = Some embd
               \<or> llama_get_embeddings_seq L (e_ctx w) 0 l' = None
                 \<and> llama_get_embeddings L (e_ctx w) l' = Some embd)
           \<and> norm = fsqrt F (fold (\<lambda>i a. fadd F a (fmul F (embd i) (embd i)))
                                    [0..<length v] (f_lit F 0 0))
           \<and> (fgt F norm (f_lit F 0 0) \<longrightarrow> v = map (\<lambda>i. fdiv F (embd i) norm) [0..<length v])
           \<and> (\<not> fgt F norm (f_lit F 0 0) \<longrightarrow> v = map embd [0..<length v])
           \<and> (norm = f_lit F 0 0 \<and> \<not> fgt F (f_lit F 0 0) (f_lit F 0 0)
                \<longrightarrow> v = map embd [0..<length v])"
proof -
  from getEmbedding_Some[OF assms] obtain w embd where
    h: "h \<noteq> 0" and w: "deref_emb s h = Inr w" and n: "0 \<le> n_embd w" and
    e: "llama_get_embeddings_seq L (e_ctx w) 0 l' = Some embd
        \<or> llama_get_embeddings_seq L (e_ctx w) 0 l' = None
          \<and> llama_get_embeddings L (e_ctx w) l' = Some embd" and
    v: "v = l2_normalize F embd (nat (n_embd w))"
    by blast
  have len: "length v = nat (n_embd w)"
    by (simp add: v length_l2_normalize)
  have d: "getEmbeddingDimension h s = Inr (int (length v))"
    using h w n len by (simp add: getEmbeddingDimension_def)
  let ?norm = "fsqrt F (fold (\<lambda>i a. fadd F a (fmul F (embd i) (embd i)))
                            [0..<length v] (f_lit F 0 0))"
  have p: "fgt F ?norm (f_lit F 0 0) \<longrightarrow> v = map (\<lambda>i. fdiv F (embd i) ?norm) [0..<length v]"
    using v len by (simp add: l2_normalize_def sum_squares_def Let_def)
  have q: "\<not> fgt F ?norm (f_lit F 0 0) \<longrightarrow> v = map embd [0..<length v]"
    using v len by (simp add: l2_normalize_def sum_squares_def Let_def)
  from w d e p q show ?thesis by auto
qed

text \<open>
  Instances in single precision: the pooled vector \<open>(3, 4)\<close> has the computed norm 5 and
  is returned as \<open>(0.6f, 0.8f)\<close>; the zero vector has norm 0 and is returned as it is.
\<close>

theorem embedding_length_and_normalisation_witness:
  "getEmbedding binary32 vec_api jni_ok emb2_session 1 ''ab'' [F_fin 3, F_fin 4]
     = Inr (Some [F_fin (10066330 / 2 ^ 24), F_fin (13421773 / 2 ^ 24)], [F_fin 3, F_fin 4])
   \<and> getEmbeddingDimension 1 emb2_session = Inr 2
   \<and> f32_sqrt (f32_add (f32_add (F_fin 0) (f32_mul (F_fin 3) (F_fin 3)))
                        (f32_mul (F_fin 4) (F_fin 4))) = F_fin 5
   \<and> f32_div (F_fin 3) (F_fin 5) = F_fin (10066330 / 2 ^ 24)
   \<and> f32_div (F_fin 4) (F_fin 5) = F_fin (13421773 / 2 ^ 24)
   \<and> getEmbedding binary32 vec_api jni_ok emb2_session 1 ''ab'' [F_fin 0, F_fin 0]
     = Inr (Some [F_fin 0, F_fin 0], [F_fin 0, F_fin 0])"
proof -
  from embedding_length_and_normalisation[OF getEmbedding_three_four]
  have "getEmbeddingDimension 1 emb2_session
          = Inr (int (length [F_fin (10066330 / 2 ^ 24), F_fin (13421773 / 2 ^ 24)]))"
    by blast
  then have d: "getEmbeddingDimension 1 emb2_session = Inr 2" by simp
  have n: "f32_sqrt (f32_add (f32_add (F_fin 0) (f32_mul (F_fin 3) (F_fin 3)))
                             (f32_mul (F_fin 4) (F_fin 4))) = F_fin 5"
    by (simp only: f32_three_four)
  have z: "f32_mul (F_fin 0) (F_fin 0) = F_fin 0"
    by (simp add: round_f32_zero)
  have o: "getEmbedding binary32 vec_api jni_ok emb2_session 1 ''ab'' [F_fin 0, F_fin 0]
             = Inr (Some [F_fin 0, F_fin 0], [F_fin 0, F_fin 0])"
    by (simp only: getEmbedding_vec l2_normalize_two z f32_underflow Let_def if_False)
  from getEmbedding_three_four d n f32_three_four(7,8) o show ?thesis by blast
qed

text \<open>
  The claim as stated fails in single precision. The pooled vector \<open>(2^-80, 2^-80)\<close> has
  a strictly positive Euclidean norm, but its squares round to zero, the computed norm is
  zero, and the vector is returned as it is: no component is divided and the result does
  not have norm 1. For \<open>(2^70, 2^70)\<close> the squares overflow, the computed norm is
  infinite, and the vector returned is \<open>(0, 0)\<close>.
\<close>

theorem embedding_not_unit_counterexample:
  "getEmbedding binary32 vec_api jni_ok emb2_session 1 ''ab''
       [F_fin (1 / 2 ^ 80), F_fin (1 / 2 ^ 80)]
     = Inr (Some [F_fin (1 / 2 ^ 80), F_fin (1 / 2 ^ 80)],
            [F_fin (1 / 2 ^ 80), F_fin (1 / 2 ^ 80)])
   \<and> (0::rat) < (1 / 2 ^ 80) * (1 / 2 ^ 80) + (1 / 2 ^ 80) * (1 / 2 ^ 80)
   \<and> getEmbedding binary32 vec_api jni_ok emb2_session 1 ''ab'' [F_fin (2 ^ 70), F_fin (2 ^ 70)]
     = Inr (Some [F_fin 0, F_fin 0], [F_fin (2 ^ 70), F_fin (2 ^ 70)])"
proof -
  have a: "getEmbedding binary32 vec_api jni_ok emb2_session 1 ''ab''
       [F_fin (1 / 2 ^ 80), F_fin (1 / 2 ^ 80)]
     = Inr (Some [F_fin (1 / 2 ^ 80), F_fin (1 / 2 ^ 80)],
            [F_fin (1 / 2 ^ 80), F_fin (1 / 2 ^ 80)])"
    by (simp only: getEmbedding_vec l2_normalize_two f32_underflow Let_def if_False)
  have b: "getEmbedding binary32 vec_api jni_ok emb2_session 1 ''ab''
       [F_fin (2 ^ 70), F_fin (2 ^ 70)]
     = Inr (Some [F_fin 0, F_fin 0], [F_fin (2 ^ 70), F_fin (2 ^ 70)])"
    by (simp only: getEmbedding_vec l2_normalize_two f32_overflow Let_def if_True)
  have c: "(0::rat) < (1 / 2 ^ 80) * (1 / 2 ^ 80) + (1 / 2 ^ 80) * (1 / 2 ^ 80)"
    by simp
  from a b c show ?thesis by blast
qed

text \<open>
  In exact arithmetic the vector returned has norm 1 whenever the norm computed is
  positive; it is the rounding, the underflow and the overflow of single precision that
  the statement above does not survive.
\<close>

lemma fold_add_sum:
  "fold (\<lambda>i (a::real). a + f i) [0..<n] a0 = a0 + (\<Sum>i<n. f i)"
  by (induction n) simp_all

lemma sum_squares_real: "sum_squares real_float embd n = (\<Sum>i<n. embd i * embd i)"
  by (simp add: sum_squares_def real_float_def fold_add_sum)

lemma l2_normalize_real_unit:
  assumes "fgt real_float (fsqrt real_float (sum_squares real_float embd n)) (f_lit real_float 0 0)"
  shows "fsqrt real_float
           (sum_squares real_float (\<lambda>i. l2_normalize real_float embd n ! i) n) = 1"
proof -
  let ?S = "\<Sum>i<n. embd i * embd i"
  from assms have pos: "0 < sqrt ?S"
    by (simp add: sum_squares_real) (simp add: real_float_def)
  then have S: "0 < ?S" by simp
  have v: "l2_normalize real_float embd n = map (\<lambda>i. embd i / sqrt ?S) [0..<n]"
    using pos by (simp add: l2_normalize_def sum_squares_real Let_def) (simp add: real_float_def)
  have "(\<Sum>i<n. (map (\<lambda>i. embd i / sqrt ?S) [0..<n] ! i) * (map (\<lambda>i. embd i / sqrt ?S) [0..<n] ! i))
          = (\<Sum>i<n. (embd i * embd i) / ?S)"
  proof (rule sum.cong)
    fix i assume "i \<in> {..<n}"
    then have "i < n" by simp
    then show "(map (\<lambda>i. embd i / sqrt ?S) [0..<n] ! i) * (map (\<lambda>i. embd i / sqrt ?S) [0..<n] ! i)
                 = (embd i * embd i) / ?S"
      using S by (simp add: field_simps)
  qed simp
  also have "\<dots> = ?S / ?S" by (rule sum_divide_distrib[symmetric])
  also have "\<dots> = 1" using S by simp
  finally show ?thesis
    by (simp add: v sum_squares_real) (simp add: real_float_def)
qed


section \<open>GPU negotiation\<close>

lemma initModelWithGpu_first_load:
  "initModelWithGpu E path c t u g s = (h, s') \<Longrightarrow>
   gpu_negotiate E u g = (avail, n, mp) \<Longrightarrow>
   \<exists>r rest. new_calls s s' = [Backend_init, Numa_init, Load_model path mp r] @ rest"
  by (auto simp: initModelWithGpu_def lib_defs Let_def new_calls_def
           split: prod.splits if_splits)

lemma initModelWithGpu_wrapper:
  "initModelWithGpu E path c t u g s = (h, s') \<Longrightarrow> h \<noteq> 0 \<Longrightarrow>
   gpu_negotiate E u g = (avail, n, mp) \<Longrightarrow>
   \<exists>w. deref_gen s' h = Inr w
     \<and> (using_gpu w \<longrightarrow> avail \<and> 0 < n)
     \<and> (gpu_layers w = n \<or> gpu_layers w = 0)"
  by (auto simp: initModelWithGpu_def lib_defs Let_def deref_gen_def
           split: prod.splits if_splits)

text \<open>
  C7. In \<^verbatim>\<open>initModelWithGpu\<close> with \<^verbatim>\<open>useGpu\<close> true: when Vulkan is available and the
  requested \<^verbatim>\<open>gpuLayers\<close> is negative, the layer count is resolved to 99, and that is the
  count of the first load. When Vulkan is not available the count is resolved to 0
  whatever was requested, the first load is made with 0 layers, and if the call creates
  a session, \<^verbatim>\<open>isUsingGpu\<close> on its handle is false (and \<^verbatim>\<open>getGpuLayers\<close> is 0).
\<close>

theorem gpu_layers_resolution:
  assumes "initModelWithGpu E path c t True gpuLayers s = (h, s')"
  shows "(vulkan_compiled E \<and> gpuLayers < 0 \<longrightarrow>
            gpu_negotiate E True gpuLayers = (True, 99, \<lparr>n_gpu_layers = 99\<rparr>)
            \<and> (\<exists>r rest. new_calls s s' =
                  [Backend_init, Numa_init, Load_model path \<lparr>n_gpu_layers = 99\<rparr> r] @ rest))
       \<and> (\<not> vulkan_compiled E \<longrightarrow>
            gpu_negotiate E True gpuLayers = (False, 0, \<lparr>n_gpu_layers = 0\<rparr>)
            \<and> (\<exists>r rest. new_calls s s' =
                  [Backend_init, Numa_init, Load_model path \<lparr>n_gpu_layers = 0\<rparr> r] @ rest)
            \<and> (h \<noteq> 0 \<longrightarrow> isUsingGpu h s' = Inr False \<and> getGpuLayers h s' = Inr 0))"
proof (intro conjI impI)
  assume a: "vulkan_compiled E \<and> gpuLayers < 0"
  then show n: "gpu_negotiate E True gpuLayers = (True, 99, \<lparr>n_gpu_layers = 99\<rparr>)"
    by (simp add: gpu_negotiate_def detect_vulkan_available_def)
  show "\<exists>r rest. new_calls s s' =
          [Backend_init, Numa_init, Load_model path \<lparr>n_gpu_layers = 99\<rparr> r] @ rest"
    by (rule initModelWithGpu_first_load[OF assms n])
next
  assume a: "\<not> vulkan_compiled E"
  then show n: "gpu_negotiate E True gpuLayers = (False, 0, \<lparr>n_gpu_layers = 0\<rparr>)"
    by (simp add: gpu_negotiate_def detect_vulkan_available_def)
  show "\<exists>r rest. new_calls s s' =
          [Backend_init, Numa_init, Load_model path \<lparr>n_gpu_layers = 0\<rparr> r] @ rest"
    by (rule initModelWithGpu_first_load[OF assms n])
  assume "h \<noteq> 0"
  from initModelWithGpu_wrapper[OF assms this n]
  show "isUsingGpu h s' = Inr False" and "getGpuLayers h s' = Inr 0"
    using \<open>h \<noteq> 0\<close> by (auto simp: isUsingGpu_def getGpuLayers_def)
qed

text \<open>Instances: all layers requested, with Vulkan and without it.\<close>

theorem gpu_layers_resolution_witness:
  "vulkan_compiled env_ok \<and> (-1::int) < 0
   \<and> gpu_negotiate env_ok True (-1) = (True, 99, \<lparr>n_gpu_layers = 99\<rparr>)
   \<and> hd (filter is_load (calls (snd (initModelWithGpu env_ok ''a.gguf'' 2048 4 True (-1) world0))))
       = Load_model ''a.gguf'' \<lparr>n_gpu_layers = 99\<rparr> 1
   \<and> \<not> vulkan_compiled env_no_vulkan
   \<and> gpu_negotiate env_no_vulkan True (-1) = (False, 0, \<lparr>n_gpu_layers = 0\<rparr>)
   \<and> fst (initModelWithGpu env_no_vulkan ''a.gguf'' 2048 4 True (-1) world0) = 1
   \<and> isUsingGpu 1 (snd (initModelWithGpu env_no_vulkan ''a.gguf'' 2048 4 True (-1) world0))
       = Inr False
   \<and> getGpuLayers 1 (snd (initModelWithGpu env_no_vulkan ''a.gguf'' 2048 4 True (-1) world0))
       = Inr 0"
proof -
  let ?a = "initModelWithGpu env_ok ''a.gguf'' 2048 4 True (-1) world0"
  let ?b = "initModelWithGpu env_no_vulkan ''a.gguf'' 2048 4 True (-1) world0"
  have va: "vulkan_compiled env_ok" and vb: "\<not> vulkan_compiled env_no_vulkan"
    by (simp_all add: env_ok_def env_no_vulkan_def)
  have ca: "calls (snd ?a) =
              [Backend_init, Numa_init, Load_model ''a.gguf'' \<lparr>n_gpu_layers = 99\<rparr> 1,
               New_context 1 \<lparr>n_ctx = 2048, n_threads = 4, n_threads_batch = 4,
                               embeddings = False\<rparr> 1]"
    by (simp add: initModelWithGpu_def gpu_negotiate_def detect_vulkan_available_def
          env_ok_def world0_def lib_defs fresh_ptr_def Let_def)
  have hb: "fst ?b = 1"
    by (simp add: initModelWithGpu_def gpu_negotiate_def detect_vulkan_available_def
          env_ok_def env_no_vulkan_def world0_def lib_defs fresh_ptr_def Let_def)
  have ea: "?a = (fst ?a, snd ?a)" and eb: "?b = (fst ?b, snd ?b)" by simp_all
  show ?thesis
    using gpu_layers_resolution[OF ea] gpu_layers_resolution[OF eb] va vb ca hb
    by simp
qed

section \<open>CPU fallback when the GPU load fails\<close>

text \<open>
  C8. When a load made by \<^verbatim>\<open>initModelWithGpu\<close> with a positive GPU layer count fails
  (the trace of the call holds \<open>Load_model path mp 0\<close> with \<open>0 < n_gpu_layers mp\<close>), the
  call makes exactly two loads: that one, then one with the layer count 0. If the second
  load fails too, the call returns 0. If it succeeds and the context build does not fail,
  the call returns a nonzero handle, so the failed GPU load is not reported; and for the
  handle returned, \<^verbatim>\<open>isUsingGpu\<close> is false and \<^verbatim>\<open>getGpuLayers\<close> is 0.
\<close>

theorem gpu_load_failure_falls_back_to_cpu:
  assumes "initModelWithGpu E path c t u g s = (h, s')"
      and "Load_model path mp 0 \<in> set (new_calls s s')"
      and "0 < n_gpu_layers mp"
  shows "\<exists>m. filter is_load (new_calls s s')
               = [Load_model path mp 0, Load_model path \<lparr>n_gpu_layers = 0\<rparr> m]
           \<and> (m = 0 \<longrightarrow> h = 0)
           \<and> (m \<noteq> 0 \<and> (\<forall>cp. New_context m cp 0 \<notin> set (new_calls s s')) \<longrightarrow> h \<noteq> 0)
           \<and> isUsingGpu h s' = Inr False \<and> getGpuLayers h s' = Inr 0"
  using assms
  by (auto simp: initModelWithGpu_def gpu_negotiate_def lib_defs Let_def new_calls_def
        isUsingGpu_def getGpuLayers_def deref_gen_def fresh_ptr_nonzero fresh_ptr_pos
        split: prod.splits if_splits)

text \<open>
  An instance: Vulkan is compiled in, all layers are requested, the load with 99 layers
  fails and the load with 0 layers succeeds.
\<close>

theorem gpu_load_failure_falls_back_to_cpu_witness:
  "calls (snd (initModelWithGpu env_gpu_load_fails ''a.gguf'' 2048 4 True (-1) world0)) =
     [Backend_init, Numa_init, Load_model ''a.gguf'' \<lparr>n_gpu_layers = 99\<rparr> 0,
      Load_model ''a.gguf'' \<lparr>n_gpu_layers = 0\<rparr> 1,
      New_context 1 \<lparr>n_ctx = 2048, n_threads = 4, n_threads_batch = 4, embeddings = False\<rparr> 1]
   \<and> fst (initModelWithGpu env_gpu_load_fails ''a.gguf'' 2048 4 True (-1) world0) = 1
   \<and> isUsingGpu 1 (snd (initModelWithGpu env_gpu_load_fails ''a.gguf'' 2048 4 True (-1) world0))
       = Inr False
   \<and> getGpuLayers 1 (snd (initModelWithGpu env_gpu_load_fails ''a.gguf'' 2048 4 True (-1) world0))
       = Inr 0"
proof -
  let ?r = "initModelWithGpu env_gpu_load_fails ''a.gguf'' 2048 4 True (-1) world0"
  have c: "calls (snd ?r) =
     [Backend_init, Numa_init, Load_model ''a.gguf'' \<lparr>n_gpu_layers = 99\<rparr> 0,
      Load_model ''a.gguf'' \<lparr>n_gpu_layers = 0\<rparr> 1,
      New_context 1 \<lparr>n_ctx = 2048, n_threads = 4, n_threads_batch = 4, embeddings = False\<rparr> 1]"
    by (simp add: initModelWithGpu_def gpu_negotiate_def detect_vulkan_available_def
          env_gpu_load_fails_def env_ok_def world0_def lib_defs fresh_ptr_def Let_def)
  have h: "fst ?r = 1"
    by (simp add: initModelWithGpu_def gpu_negotiate_def detect_vulkan_available_def
          env_gpu_load_fails_def env_ok_def world0_def lib_defs fresh_ptr_def Let_def)
  have e: "?r = (fst ?r, snd ?r)" by simp
  have l: "Load_model ''a.gguf'' \<lparr>n_gpu_layers = 99\<rparr> 0 \<in> set (new_calls world0 (snd ?r))"
    by (simp add: new_calls_def c) (simp add: world0_def)
  have p: "0 < n_gpu_layers \<lparr>n_gpu_layers = 99\<rparr>" by simp
  from gpu_load_failure_falls_back_to_cpu[OF e l p] c h
  show ?thesis by auto
qed

section \<open>Failed creation leaks nothing\<close>

lemma initModel_failed_context:
  assumes "initModel E path c t s = (h, s')"
      and "New_context m cp 0 \<in> set (new_calls s s')"
  shows "h = 0 \<and> m \<noteq> 0 \<and> last (calls s') = Free_model m \<and> m \<notin> set (live_models s')
         \<and> live_models s' = live_models s \<and> live_ctxs s' = live_ctxs s \<and> heap s' = heap s"
  using assms
  by (auto simp: initModel_def lib_defs Let_def new_calls_def fresh_ptr_fresh fresh_ptr_nonzero fresh_ptr_pos
           split: prod.splits if_splits)

lemma initEmbeddingModel_failed_context:
  assumes "initEmbeddingModel E path c t s = (h, s')"
      and "New_context m cp 0 \<in> set (new_calls s s')"
  shows "h = 0 \<and> m \<noteq> 0 \<and> last (calls s') = Free_model m \<and> m \<notin> set (live_models s')
         \<and> live_models s' = live_models s \<and> live_ctxs s' = live_ctxs s \<and> heap s' = heap s"
  using assms
  by (auto simp: initEmbeddingModel_def lib_defs Let_def new_calls_def fresh_ptr_fresh fresh_ptr_nonzero fresh_ptr_pos
           split: prod.splits if_splits)

lemma initModelWithGpu_failed_context:
  assumes "initModelWithGpu E path c t u g s = (h, s')"
      and "New_context m cp 0 \<in> set (new_calls s s')"
  shows "h = 0 \<and> m \<noteq> 0 \<and> last (calls s') = Free_model m \<and> m \<notin> set (live_models s')
         \<and> live_models s' = live_models s \<and> live_ctxs s' = live_ctxs s \<and> heap s' = heap s"
  using assms
  by (auto simp: initModelWithGpu_def lib_defs Let_def new_calls_def fresh_ptr_fresh fresh_ptr_nonzero fresh_ptr_pos
           split: prod.splits if_splits)


text \<open>
  C9. In each of the three creation functions, when the context build fails for the
  model \<open>m\<close> that was loaded (the library call \<open>New_context m cp\<close> returned null), the
  call returns the handle \<open>0\<close>, its last library call is the release of \<open>m\<close>, and the
  process holds exactly the models, contexts and wrappers it held before the call:
  nothing of the failed creation is left.
\<close>

theorem failed_context_build_releases_model:
  assumes "initModel E path c t s = (h, s')
           \<or> initModelWithGpu E path c t u g s = (h, s')
           \<or> initEmbeddingModel E path c t s = (h, s')"
      and "New_context m cp 0 \<in> set (new_calls s s')"
  shows "h = 0 \<and> m \<noteq> 0 \<and> last (calls s') = Free_model m \<and> m \<notin> set (live_models s')
         \<and> live_models s' = live_models s \<and> live_ctxs s' = live_ctxs s \<and> heap s' = heap s"
  using assms(1)
proof (elim disjE)
  assume "initModel E path c t s = (h, s')"
  then show ?thesis using assms(2) by (rule initModel_failed_context)
next
  assume "initModelWithGpu E path c t u g s = (h, s')"
  then show ?thesis using assms(2) by (rule initModelWithGpu_failed_context)
next
  assume "initEmbeddingModel E path c t s = (h, s')"
  then show ?thesis using assms(2) by (rule initEmbeddingModel_failed_context)
qed

text \<open>
  An instance: the library loads the model and refuses the context; the GPU variant is
  asked for all layers.
\<close>

theorem failed_context_build_releases_model_witness:
  "fst (initModelWithGpu env_no_context ''m.gguf'' 512 4 True (-1) world0) = 0
   \<and> calls (snd (initModelWithGpu env_no_context ''m.gguf'' 512 4 True (-1) world0)) =
       [Backend_init, Numa_init, Load_model ''m.gguf'' \<lparr>n_gpu_layers = 99\<rparr> 1,
        New_context 1 \<lparr>n_ctx = 512, n_threads = 4, n_threads_batch = 4, embeddings = False\<rparr> 0,
        Free_model 1]
   \<and> live_models (snd (initModelWithGpu env_no_context ''m.gguf'' 512 4 True (-1) world0)) = []"
proof -
  let ?r = "initModelWithGpu env_no_context ''m.gguf'' 512 4 True (-1) world0"
  have c: "calls (snd ?r) =
       [Backend_init, Numa_init, Load_model ''m.gguf'' \<lparr>n_gpu_layers = 99\<rparr> 1,
        New_context 1 \<lparr>n_ctx = 512, n_threads = 4, n_threads_batch = 4, embeddings = False\<rparr> 0,
        Free_model 1]"
    by (simp add: initModelWithGpu_def gpu_negotiate_def detect_vulkan_available_def
          env_no_context_def world0_def lib_defs fresh_ptr_def Let_def)
  have n: "New_context 1 \<lparr>n_ctx = 512, n_threads = 4, n_threads_batch = 4, embeddings = False\<rparr> 0
             \<in> set (new_calls world0 (snd ?r))"
    by (simp add: new_calls_def c) (simp add: world0_def)
  have "initModel env_no_context ''m.gguf'' 512 4 world0 = (fst ?r, snd ?r)
           \<or> ?r = (fst ?r, snd ?r)
           \<or> initEmbeddingModel env_no_context ''m.gguf'' 512 4 world0 = (fst ?r, snd ?r)"
    by simp
  from failed_context_build_releases_model[OF this n] c
  show ?thesis by (simp add: world0_def)
qed


section \<open>Backend teardown on release\<close>

text \<open>
  C10. A call of \<^verbatim>\<open>freeModel\<close> on the nonzero handle of a live generation session ends
  with \<^verbatim>\<open>llama_backend_free\<close>, so the number of backend teardowns grows by one, and it
  does so whatever else the process holds: every other wrapper is still there afterwards.
  A call of \<^verbatim>\<open>freeEmbeddingModel\<close> never adds a backend teardown.
\<close>

theorem freeModel_tears_down_backend:
  assumes "h \<noteq> 0" and "deref_gen s h = Inr w"
  shows "(\<exists>s'. freeModel h s = Inr s'
            \<and> backend_frees s' = Suc (backend_frees s)
            \<and> last (calls s') = Backend_free
            \<and> (\<forall>k. k \<noteq> h \<longrightarrow> map_of (heap s') k = map_of (heap s) k))
         \<and> (\<forall>k t. freeEmbeddingModel k s = Inr t \<longrightarrow> backend_frees t = backend_frees s)"
proof -
  from freeModel_live[OF assms] obtain s' where
    f: "freeModel h s = Inr s'" and
    c: "calls s' = calls s @ (if w_ctx w \<noteq> 0 then [Free_ctx (w_ctx w)] else [])
                          @ (if w_model w \<noteq> 0 then [Free_model (w_model w)] else [])
                          @ [Backend_free]" and
    hp: "heap s' = filter (\<lambda>(b, _). b \<noteq> h) (heap s)"
    by blast
  have "backend_frees s' = Suc (backend_frees s)"
    by (simp add: backend_frees_def c)
  moreover have "last (calls s') = Backend_free"
    by (simp add: c)
  moreover have "\<forall>k. k \<noteq> h \<longrightarrow> map_of (heap s') k = map_of (heap s) k"
    by (simp add: hp map_of_filter_other)
  ultimately show ?thesis
    using f freeEmbeddingModel_no_backend_free by blast
qed

text \<open>
  An instance: two generation sessions are created, the first is released; the backend
  is torn down although the second session is still live.
\<close>

theorem freeModel_tears_down_backend_witness:
  "deref_gen two_sessions 1 = Inr \<lparr>w_model = 1, w_ctx = 1, using_gpu = False, gpu_layers = 0\<rparr>
   \<and> (\<exists>s'. freeModel 1 two_sessions = Inr s'
         \<and> backend_frees s' = Suc (backend_frees two_sessions)
         \<and> last (calls s') = Backend_free
         \<and> deref_gen s' 2 = Inr \<lparr>w_model = 2, w_ctx = 2, using_gpu = True, gpu_layers = 99\<rparr>)"
proof -
  have d1: "deref_gen two_sessions 1
              = Inr \<lparr>w_model = 1, w_ctx = 1, using_gpu = False, gpu_layers = 0\<rparr>"
    by (simp add: two_sessions_eq deref_gen_def)
  have m2: "map_of (heap two_sessions) 2
              = Some (Gen_wrapper \<lparr>w_model = 2, w_ctx = 2, using_gpu = True, gpu_layers = 99\<rparr>)"
    by (simp add: two_sessions_eq)
  have "(1::nat) \<noteq> 0" by simp
  from freeModel_tears_down_backend[OF this d1] obtain s' where
    "freeModel 1 two_sessions = Inr s'" "backend_frees s' = Suc (backend_frees two_sessions)"
    "last (calls s') = Backend_free" "map_of (heap s') 2 = map_of (heap two_sessions) 2"
    by force
  then show ?thesis using d1 m2 by (auto simp: deref_gen_map_of)
qed

end
